theory Spec2Isabelle
  imports Complex_Main "HOL-Library.Multiset" "HOL-Library.Word"
begin

section \<open>The aggregator of aggregator/main.go\<close>

text \<open>
  The aggregator answers \<^verbatim>\<open>POST /analyze\<close>: it sends the input text to eight downstream
  services, one goroutine each, and assembles their answers into one \<open>AnalyseResponse\<close>.
  The embedding follows \<^verbatim>\<open>aggregator/main.go\<close> function by function. What the Go
  runtime and the network decide is a parameter of the model (the record \<open>world\<close>).
\<close>

subsection \<open>JSON values as \<^verbatim>\<open>encoding/json\<close> hands them over\<close>

text \<open>
  A JSON text as a tree, with the leaves as \<^verbatim>\<open>encoding/json\<close> decodes them. An object
  keeps its members in the order of the text, duplicates included. A number is not the
  literal of the text but the \<^verbatim>\<open>float64\<close> the decoder converts the literal to, the
  nearest one (the literal 9223372036854775807 is the number \<open>2 ^ 63\<close>); every finite
  \<^verbatim>\<open>float64\<close> is a rational, so \<open>rat\<close> holds all of them. A string is the bytes the
  decoder yields, which are UTF-8. A value of Go's \<^verbatim>\<open>interface{}\<close> after decoding is such
  a tree too: \<open>JNull\<close> is \<^verbatim>\<open>nil\<close>, \<open>JNumber\<close> a \<^verbatim>\<open>float64\<close>, \<open>JObject\<close> a
  \<^verbatim>\<open>map[string]interface{}\<close>.
\<close>

datatype json =
    JNull
  | JBool bool
  | JNumber rat
  | JString string
  | JArray "json list"
  | JObject "(string \<times> json) list"

text \<open>
  The body of an HTTP message as the code reads it. \<open>Unreadable\<close>: reading fails.
  \<open>Invalid\<close>: the body does not start with a JSON value (the empty body included), or a
  number of it is outside \<^verbatim>\<open>float64\<close>. \<open>Document j\<close>: the body is the JSON value \<open>j\<close>,
  with white space around it at most. \<open>Trailing j rest\<close>: the body is the JSON value \<open>j\<close>
  followed by the bytes \<open>rest\<close>.
\<close>

datatype body = Unreadable | Invalid | Document json | Trailing json string

text \<open>The bytes the scanner of \<^verbatim>\<open>encoding/json\<close> takes for white space.\<close>

definition isSpace :: "char \<Rightarrow> bool" where
  "isSpace c = (c = CHR '' '' \<or> c = CHR 0x09 \<or> c = CHR 0x0D \<or> c = CHR 0x0A)"

datatype error =
    MarshalError
  | PostError
  | StatusError nat
  | ReadError
  | SyntaxError
  | UnmarshalTypeError

text \<open>
  Indexing a \<^verbatim>\<open>map[string]interface{}\<close>: the key is compared exactly, and of two members
  of the same name the decoder kept the later one.
\<close>

definition index_map :: "(string \<times> json) list \<Rightarrow> string \<Rightarrow> json option" where
  "index_map data k = map_of (rev data) k"

text \<open>
  The decoder matches a member's name with a struct field's name up to Unicode simple
  case folding. Two characters outside ASCII fold to an ASCII letter: the Kelvin sign
  (U+212A, bytes E2 84 AA) to K and the long s (U+017F, bytes C5 BF) to S. All other
  bytes outside ASCII never match a field name written in ASCII, and stay as they are.
\<close>

definition upper :: "char \<Rightarrow> char" where
  "upper c =
     (case map_of (zip ''abcdefghijklmnopqrstuvwxyz'' ''ABCDEFGHIJKLMNOPQRSTUVWXYZ'') c of
        Some u \<Rightarrow> u
      | None \<Rightarrow> c)"

fun foldName :: "string \<Rightarrow> string" where
  "foldName [] = []"
| "foldName (c # cs) =
     (if c = CHR 0xE2 \<and> take 2 cs = [CHR 0x84, CHR 0xAA] then CHR ''K'' # foldName (drop 2 cs)
      else if c = CHR 0xC5 \<and> take 1 cs = [CHR 0xBF] then CHR ''S'' # foldName (drop 1 cs)
      else upper c # foldName cs)"

text \<open>The decoder keeps the first error and goes on with the next member.\<close>

definition saveError :: "error \<Rightarrow> error option \<Rightarrow> error option" where
  "saveError e saved = (case saved of None \<Rightarrow> Some e | Some e0 \<Rightarrow> Some e0)"

subsection \<open>The types of main.go\<close>

record OpRequest_Deps =
  Normalized :: "string option"
  Transliterated :: "string option"
  Tokens :: "string list"

record OpRequest =
  Text :: "string option"
  Deps :: "OpRequest_Deps option"

record OpResponse =
  Key :: string
  Value :: json
  CacheHit :: bool

record AnalyseRequest =
  Text :: string

record AnalyseResponse =
  Normalized :: string
  Transliterated :: string
  Slug :: string
  Tokens :: int
  UniqueWords :: int
  BigramCount :: int
  CharCount :: int
  UniqueChars :: int
  Hash64 :: string
  Entropy :: rat
  Palindrome :: bool
  Degraded :: bool

text \<open>
  \<^verbatim>\<open>json.Marshal\<close> of an \<open>OpRequest\<close>: both fields are pointers tagged \<^verbatim>\<open>omitempty\<close>, so a
  nil pointer leaves its member out. It has no failing case for this type. The tree holds
  a string as the receiver decodes it: the bytes of the text when they are UTF-8, as those
  of a text from the decoder are.
\<close>

definition json_Marshal_Deps :: "OpRequest_Deps \<Rightarrow> json" where
  "json_Marshal_Deps d = JObject
     ((case OpRequest_Deps.Normalized d of None \<Rightarrow> [] | Some x \<Rightarrow> [(''normalized'', JString x)]) @
      (case OpRequest_Deps.Transliterated d of None \<Rightarrow> [] | Some x \<Rightarrow> [(''transliterated'', JString x)]) @
      (if OpRequest_Deps.Tokens d = [] then [] else [(''tokens'', JArray (map JString (OpRequest_Deps.Tokens d)))]))"

definition json_Marshal_OpRequest :: "OpRequest \<Rightarrow> error + json" where
  "json_Marshal_OpRequest payload = Inr (JObject
     ((case OpRequest.Text payload of None \<Rightarrow> [] | Some t \<Rightarrow> [(''text'', JString t)]) @
      (case Deps payload of None \<Rightarrow> [] | Some d \<Rightarrow> [(''deps'', json_Marshal_Deps d)])))"

text \<open>
  \<^verbatim>\<open>json.Unmarshal\<close> into an \<open>OpResponse\<close>, member by member. A member whose name matches no
  field is skipped. A string field takes a string, a bool field a bool, both leave
  \<^verbatim>\<open>null\<close> alone and record a type error for anything else; the \<^verbatim>\<open>interface{}\<close> field takes
  any value.
\<close>

fun object_OpResponse :: "(string \<times> json) list \<Rightarrow> OpResponse \<times> error option \<Rightarrow> OpResponse \<times> error option" where
  "object_OpResponse [] s = s"
| "object_OpResponse ((k, v) # ms) (r, saved) = object_OpResponse ms
     (if foldName k = foldName ''key'' then
        (case v of JString x \<Rightarrow> (r\<lparr>Key := x\<rparr>, saved)
         | JNull \<Rightarrow> (r, saved)
         | _ \<Rightarrow> (r, saveError UnmarshalTypeError saved))
      else if foldName k = foldName ''value'' then (r\<lparr>Value := v\<rparr>, saved)
      else if foldName k = foldName ''cache_hit'' then
        (case v of JBool b \<Rightarrow> (r\<lparr>CacheHit := b\<rparr>, saved)
         | JNull \<Rightarrow> (r, saved)
         | _ \<Rightarrow> (r, saveError UnmarshalTypeError saved))
      else (r, saved))"

definition unmarshal_OpResponse :: "json \<Rightarrow> error + OpResponse" where
  "unmarshal_OpResponse j =
     (case j of
        JNull \<Rightarrow> Inr \<lparr>Key = [], Value = JNull, CacheHit = False\<rparr>
      | JObject ms \<Rightarrow>
          (case object_OpResponse ms (\<lparr>Key = [], Value = JNull, CacheHit = False\<rparr>, None) of
             (r, None) \<Rightarrow> Inr r
           | (r, Some e) \<Rightarrow> Inl e)
      | _ \<Rightarrow> Inl UnmarshalTypeError)"

text \<open>
  \<^verbatim>\<open>json.Unmarshal(body, &opResp)\<close> first checks that the whole body is one JSON text:
  anything but white space after the value is a syntax error.
\<close>

definition json_Unmarshal_OpResponse :: "body \<Rightarrow> error + OpResponse" where
  "json_Unmarshal_OpResponse b =
     (case b of
        Unreadable \<Rightarrow> Inl ReadError
      | Invalid \<Rightarrow> Inl SyntaxError
      | Document j \<Rightarrow> unmarshal_OpResponse j
      | Trailing j rest \<Rightarrow>
          if list_all isSpace rest then unmarshal_OpResponse j else Inl SyntaxError)"

fun object_AnalyseRequest :: "(string \<times> json) list \<Rightarrow> AnalyseRequest \<times> error option \<Rightarrow> AnalyseRequest \<times> error option" where
  "object_AnalyseRequest [] s = s"
| "object_AnalyseRequest ((k, v) # ms) (r, saved) = object_AnalyseRequest ms
     (if foldName k = foldName ''text'' then
        (case v of JString x \<Rightarrow> (r\<lparr>Text := x\<rparr>, saved)
         | JNull \<Rightarrow> (r, saved)
         | _ \<Rightarrow> (r, saveError UnmarshalTypeError saved))
      else (r, saved))"

definition unmarshal_AnalyseRequest :: "json \<Rightarrow> error + AnalyseRequest" where
  "unmarshal_AnalyseRequest j =
     (case j of
        JNull \<Rightarrow> Inr \<lparr>Text = []\<rparr>
      | JObject ms \<Rightarrow>
          (case object_AnalyseRequest ms (\<lparr>Text = []\<rparr>, None) of
             (r, None) \<Rightarrow> Inr r
           | (r, Some e) \<Rightarrow> Inl e)
      | _ \<Rightarrow> Inl UnmarshalTypeError)"

text \<open>
  \<^verbatim>\<open>json.NewDecoder(r.Body).Decode(&req)\<close> for an \<open>AnalyseRequest\<close>. The decoder reads the
  first JSON value of the body and decodes it; it does not look at the bytes after it.
\<close>

definition Decode_AnalyseRequest :: "body \<Rightarrow> error + AnalyseRequest" where
  "Decode_AnalyseRequest b =
     (case b of
        Unreadable \<Rightarrow> Inl ReadError
      | Invalid \<Rightarrow> Inl SyntaxError
      | Document j \<Rightarrow> unmarshal_AnalyseRequest j
      | Trailing j rest \<Rightarrow> unmarshal_AnalyseRequest j)"

text \<open>
  \<^verbatim>\<open>json.NewEncoder(w).Encode(response)\<close>: no field of \<open>AnalyseResponse\<close> is tagged
  \<^verbatim>\<open>omitempty\<close>, so all twelve members are written, in the order of the struct.
\<close>

definition json_Marshal_AnalyseResponse :: "AnalyseResponse \<Rightarrow> json" where
  "json_Marshal_AnalyseResponse r = JObject
     [(''normalized'', JString (Normalized r)),
      (''transliterated'', JString (Transliterated r)),
      (''slug'', JString (Slug r)),
      (''tokens'', JNumber (of_int (Tokens r))),
      (''unique_words'', JNumber (of_int (UniqueWords r))),
      (''bigram_count'', JNumber (of_int (BigramCount r))),
      (''char_count'', JNumber (of_int (CharCount r))),
      (''unique_chars'', JNumber (of_int (UniqueChars r))),
      (''hash64'', JString (Hash64 r)),
      (''entropy'', JNumber (Entropy r)),
      (''palindrome'', JBool (Palindrome r)),
      (''degraded'', JBool (Degraded r))]"

subsection \<open>The conversion \<^verbatim>\<open>int(f)\<close> of a \<^verbatim>\<open>float64\<close>\<close>

text \<open>
  Go's \<^verbatim>\<open>int\<close> has 64 bits on the platforms the services are built for. The conversion
  drops the fraction (it truncates towards zero); when the result does not fit the type,
  the language leaves the value to the implementation (\<open>oor\<close> below; amd64 yields the
  smallest \<^verbatim>\<open>int64\<close>).
\<close>

definition trunc :: "rat \<Rightarrow> int" where
  "trunc f = (if 0 \<le> f then \<lfloor>f\<rfloor> else \<lceil>f\<rceil>)"

definition int_of_float64 :: "(rat \<Rightarrow> 64 word) \<Rightarrow> rat \<Rightarrow> int" where
  "int_of_float64 oor f =
     (if - (2 ^ 63) \<le> trunc f \<and> trunc f < 2 ^ 63 then trunc f else sint (oor f))"

definition amd64_oor :: "rat \<Rightarrow> 64 word" where
  "amd64_oor f = 2 ^ 63"

subsection \<open>The world around one request\<close>

datatype dep = Normalizer | Transliterator | Slugger | Tokenizer | Counter | Hasher | EntropyDep | PalindromeDep

definition all_deps :: "dep list" where
  "all_deps = [Normalizer, Transliterator, Slugger, Tokenizer, Counter, Hasher, EntropyDep, PalindromeDep]"

record post_request =
  URL :: string
  ContentType :: string
  Payload :: json
  Timeout :: int

datatype http_result = PostFailed | Response nat body

text \<open>
  \<open>Getenv\<close> is \<^verbatim>\<open>os.Getenv\<close>; \<open>Post\<close> is what \<^verbatim>\<open>client.Post\<close> comes back with in the goroutine
  of each dependency; \<open>out_of_range\<close> is the platform's result of \<^verbatim>\<open>int(f)\<close> where it is
  not defined; \<open>merge_order\<close> is the order in which the eight goroutines take the mutex.
\<close>

record world =
  Getenv :: "string \<Rightarrow> string"
  Post :: "dep \<Rightarrow> post_request \<Rightarrow> http_result"
  out_of_range :: "rat \<Rightarrow> 64 word"
  merge_order :: "dep list"

text \<open>
  Every goroutine merges its result once, holding the mutex while it writes: a run is a
  permutation of the eight.
\<close>

definition run :: "world \<Rightarrow> bool" where
  "run w = (mset (merge_order w) = mset all_deps)"

definition getEnv :: "world \<Rightarrow> string \<Rightarrow> string \<Rightarrow> string" where
  "getEnv w key defaultValue = (let v = Getenv w key in if v \<noteq> [] then v else defaultValue)"

definition normalizerURL :: "world \<Rightarrow> string" where
  "normalizerURL w = getEnv w ''NORMALIZER_URL'' ''http://normalizer.disablers.svc.cluster.local:8080''"

definition transliteratorURL :: "world \<Rightarrow> string" where
  "transliteratorURL w = getEnv w ''TRANSLITERATOR_URL'' ''http://transliterator.disablers.svc.cluster.local:8082''"

definition sluggerURL :: "world \<Rightarrow> string" where
  "sluggerURL w = getEnv w ''SLUGGER_URL'' ''http://slugger.disablers.svc.cluster.local:8083''"

definition tokenizerURL :: "world \<Rightarrow> string" where
  "tokenizerURL w = getEnv w ''TOKENIZER_URL'' ''http://tokenizer.disablers.svc.cluster.local:8084''"

definition counterURL :: "world \<Rightarrow> string" where
  "counterURL w = getEnv w ''COUNTER_URL'' ''http://counter.disablers.svc.cluster.local:8085''"

definition hasherURL :: "world \<Rightarrow> string" where
  "hasherURL w = getEnv w ''HASHER_URL'' ''http://hasher.disablers.svc.cluster.local:8086''"

definition entropyURL :: "world \<Rightarrow> string" where
  "entropyURL w = getEnv w ''ENTROPY_URL'' ''http://entropy.disablers.svc.cluster.local:8087''"

definition palindromeURL :: "world \<Rightarrow> string" where
  "palindromeURL w = getEnv w ''PALINDROME_URL'' ''http://palindrome.disablers.svc.cluster.local:8088''"

fun baseURL :: "world \<Rightarrow> dep \<Rightarrow> string" where
  "baseURL w Normalizer = normalizerURL w"
| "baseURL w Transliterator = transliteratorURL w"
| "baseURL w Slugger = sluggerURL w"
| "baseURL w Tokenizer = tokenizerURL w"
| "baseURL w Counter = counterURL w"
| "baseURL w Hasher = hasherURL w"
| "baseURL w EntropyDep = entropyURL w"
| "baseURL w PalindromeDep = palindromeURL w"

subsection \<open>callMicroservice\<close>

definition Second :: int where
  "Second = 1000000000"

text \<open>
  The result of the call, and the requests it put on the wire. \<open>post\<close> is the network's
  answer to \<^verbatim>\<open>client.Post\<close>.
\<close>

definition callMicroservice ::
  "(post_request \<Rightarrow> http_result) \<Rightarrow> string \<Rightarrow> string \<Rightarrow> (error + OpResponse) \<times> post_request list" where
  "callMicroservice post url text =
     (case json_Marshal_OpRequest \<lparr>OpRequest.Text = Some text, Deps = None\<rparr> of
        Inl err \<Rightarrow> (Inl err, [])
      | Inr jsonData \<Rightarrow>
          (let req = \<lparr>URL = url @ ''/op'', ContentType = ''application/json'',
                      Payload = jsonData, Timeout = 10 * Second\<rparr>
           in case post req of
                PostFailed \<Rightarrow> (Inl PostError, [req])
              | Response statusCode b \<Rightarrow>
                  if statusCode \<noteq> 200 then (Inl (StatusError statusCode), [req])
                  else (case b of
                          Unreadable \<Rightarrow> (Inl ReadError, [req])
                        | _ \<Rightarrow> (json_Unmarshal_OpResponse b, [req]))))"

subsection \<open>aggregateAnalysis\<close>

text \<open>
  The state the goroutines share: the response and the error list, both behind the
  mutex. \<open>wire\<close> is the trace of the requests sent; it is not part of the program.
\<close>

record shared =
  response :: AnalyseResponse
  errors :: "(string \<times> error) list"
  wire :: "(dep \<times> post_request) list"

text \<open>
  What each goroutine does with the result of its call. Every branch that touches the
  shared state does so between \<^verbatim>\<open>mu.Lock()\<close> and \<^verbatim>\<open>mu.Unlock()\<close>, in one piece.
\<close>

fun merge :: "world \<Rightarrow> dep \<Rightarrow> error + OpResponse \<Rightarrow> shared \<Rightarrow> shared" where
  "merge w Normalizer res s =
     (case res of
        Inr resp \<Rightarrow>
          (case Value resp of
             JString normalized \<Rightarrow> s\<lparr>response := (response s)\<lparr>Normalized := normalized\<rparr>\<rparr>
           | _ \<Rightarrow> s)
      | Inl err \<Rightarrow> s\<lparr>errors := errors s @ [(''normalizer'', err)]\<rparr>)"
| "merge w Transliterator res s =
     (case res of
        Inr resp \<Rightarrow>
          (case Value resp of
             JString transliterated \<Rightarrow> s\<lparr>response := (response s)\<lparr>Transliterated := transliterated\<rparr>\<rparr>
           | _ \<Rightarrow> s)
      | Inl err \<Rightarrow> s\<lparr>errors := errors s @ [(''transliterator'', err)]\<rparr>)"
| "merge w Slugger res s =
     (case res of
        Inr resp \<Rightarrow>
          (case Value resp of
             JString slug \<Rightarrow> s\<lparr>response := (response s)\<lparr>Slug := slug\<rparr>\<rparr>
           | _ \<Rightarrow> s)
      | Inl err \<Rightarrow> s\<lparr>errors := errors s @ [(''slugger'', err)]\<rparr>)"
| "merge w Tokenizer res s =
     (case res of
        Inr resp \<Rightarrow>
          (case Value resp of
             JNumber tokens \<Rightarrow>
               s\<lparr>response := (response s)\<lparr>Tokens := int_of_float64 (out_of_range w) tokens\<rparr>\<rparr>
           | _ \<Rightarrow> s)
      | Inl err \<Rightarrow> s\<lparr>errors := errors s @ [(''tokenizer'', err)]\<rparr>)"
| "merge w Counter res s =
     (case res of
        Inr resp \<Rightarrow>
          (case Value resp of
             JObject data \<Rightarrow>
               (let r1 = (case index_map data ''unique_words'' of
                            Some (JNumber uniqueWords) \<Rightarrow>
                              (response s)\<lparr>UniqueWords := int_of_float64 (out_of_range w) uniqueWords\<rparr>
                          | _ \<Rightarrow> response s);
                    r2 = (case index_map data ''bigram_count'' of
                            Some (JNumber bigramCount) \<Rightarrow>
                              r1\<lparr>BigramCount := int_of_float64 (out_of_range w) bigramCount\<rparr>
                          | _ \<Rightarrow> r1);
                    r3 = (case index_map data ''unique_chars'' of
                            Some (JNumber uniqueChars) \<Rightarrow>
                              r2\<lparr>UniqueChars := int_of_float64 (out_of_range w) uniqueChars\<rparr>
                          | _ \<Rightarrow> r2)
                in s\<lparr>response := r3\<rparr>)
           | _ \<Rightarrow> s)
      | Inl err \<Rightarrow> s\<lparr>errors := errors s @ [(''counter'', err)]\<rparr>)"
| "merge w Hasher res s =
     (case res of
        Inr resp \<Rightarrow>
          (case Value resp of
             JString hash \<Rightarrow> s\<lparr>response := (response s)\<lparr>Hash64 := hash\<rparr>\<rparr>
           | _ \<Rightarrow> s)
      | Inl err \<Rightarrow> s\<lparr>errors := errors s @ [(''hasher'', err)]\<rparr>)"
| "merge w EntropyDep res s =
     (case res of
        Inr resp \<Rightarrow>
          (case Value resp of
             JNumber entropy \<Rightarrow> s\<lparr>response := (response s)\<lparr>Entropy := entropy\<rparr>\<rparr>
           | _ \<Rightarrow> s)
      | Inl err \<Rightarrow> s\<lparr>errors := errors s @ [(''entropy'', err)]\<rparr>)"
| "merge w PalindromeDep res s =
     (case res of
        Inr resp \<Rightarrow>
          (case Value resp of
             JBool palindrome \<Rightarrow> s\<lparr>response := (response s)\<lparr>Palindrome := palindrome\<rparr>\<rparr>
           | _ \<Rightarrow> s)
      | Inl err \<Rightarrow> s\<lparr>errors := errors s @ [(''palindrome'', err)]\<rparr>)"

text \<open>
  One goroutine: the call with the raw text, outside the mutex, then its merge. A call
  reads nothing of the shared state, so the goroutines run here one after the other, in
  the order of their merges; \<open>wire\<close> lists the requests in that order, which says nothing
  about the order in which they were sent.
\<close>

definition goroutine :: "world \<Rightarrow> string \<Rightarrow> dep \<Rightarrow> shared \<Rightarrow> shared" where
  "goroutine w text d s =
     (case callMicroservice (Post w d) (baseURL w d) text of
        (res, sent) \<Rightarrow> (merge w d res s)\<lparr>wire := wire s @ map (Pair d) sent\<rparr>)"

text \<open>The shared state when \<^verbatim>\<open>wg.Wait()\<close> returns.\<close>

definition join :: "world \<Rightarrow> string \<Rightarrow> shared" where
  "join w text = fold (goroutine w text) (merge_order w)
     \<lparr>response = \<lparr>Normalized = [], Transliterated = [], Slug = [], Tokens = 0, UniqueWords = 0,
                   BigramCount = 0, CharCount = int (length text), UniqueChars = 0, Hash64 = [],
                   Entropy = 0, Palindrome = False, Degraded = False\<rparr>,
      errors = [], wire = []\<rparr>"

definition aggregateAnalysis ::
  "world \<Rightarrow> string \<Rightarrow> (AnalyseResponse \<times> error option) \<times> (dep \<times> post_request) list" where
  "aggregateAnalysis w text =
     (let s = join w text;
          r = (if length (errors s) > 0 then (response s)\<lparr>Degraded := True\<rparr> else response s)
      in ((r, None), wire s))"

subsection \<open>handleAnalyze\<close>

record http_request =
  Method :: string
  Body :: body

datatype written = Plain string | Json json

record http_reply =
  StatusCode :: nat
  Header_ContentType :: string
  Written :: written

definition http_Error :: "string \<Rightarrow> nat \<Rightarrow> http_reply" where
  "http_Error msg code =
     \<lparr>StatusCode = code, Header_ContentType = ''text/plain; charset=utf-8'',
      Written = Plain (msg @ [CHR 0x0A])\<rparr>"

definition handleAnalyze :: "world \<Rightarrow> http_request \<Rightarrow> http_reply \<times> (dep \<times> post_request) list" where
  "handleAnalyze w r =
     (if Method r \<noteq> ''POST'' then (http_Error ''Method not allowed'' 405, [])
      else case Decode_AnalyseRequest (Body r) of
        Inl err \<Rightarrow> (http_Error ''Invalid JSON'' 400, [])
      | Inr req \<Rightarrow>
          if Text req = [] then (http_Error ''Text field is required'' 400, [])
          else (case aggregateAnalysis w (Text req) of
                  ((resp, Some err), sent) \<Rightarrow> (http_Error ''Internal server error'' 500, sent)
                | ((resp, None), sent) \<Rightarrow>
                    (\<lparr>StatusCode = 200, Header_ContentType = ''application/json'',
                      Written = Json (json_Marshal_AnalyseResponse resp)\<rparr>, sent)))"

section \<open>Notions the statements use\<close>

text \<open>The name each goroutine puts in front of the error it records.\<close>

fun errname :: "dep \<Rightarrow> string" where
  "errname Normalizer = ''normalizer''"
| "errname Transliterator = ''transliterator''"
| "errname Slugger = ''slugger''"
| "errname Tokenizer = ''tokenizer''"
| "errname Counter = ''counter''"
| "errname Hasher = ''hasher''"
| "errname EntropyDep = ''entropy''"
| "errname PalindromeDep = ''palindrome''"

text \<open>The result of the call that the goroutine of \<open>d\<close> makes, and the request it sends.\<close>

definition outcome :: "world \<Rightarrow> string \<Rightarrow> dep \<Rightarrow> error + OpResponse" where
  "outcome w text d = fst (callMicroservice (Post w d) (baseURL w d) text)"

definition the_request :: "string \<Rightarrow> string \<Rightarrow> post_request" where
  "the_request url text =
     \<lparr>URL = url @ ''/op'', ContentType = ''application/json'',
      Payload = JObject [(''text'', JString text)], Timeout = 10000000000\<rparr>"

text \<open>
  The two halves of \<open>merge\<close>: what it does to the response, and what it appends to the
  error list.
\<close>

definition assemble :: "world \<Rightarrow> dep \<Rightarrow> error + OpResponse \<Rightarrow> AnalyseResponse \<Rightarrow> AnalyseResponse" where
  "assemble w d res r = response (merge w d res \<lparr>response = r, errors = [], wire = []\<rparr>)"

definition recorded :: "dep \<Rightarrow> error + OpResponse \<Rightarrow> (string \<times> error) list" where
  "recorded d res = (case res of Inl err \<Rightarrow> [(errname d, err)] | Inr resp \<Rightarrow> [])"

text \<open>
  Go's type assertions \<^verbatim>\<open>v.(string)\<close>, \<^verbatim>\<open>v.(float64)\<close>, \<^verbatim>\<open>v.(bool)\<close>, and the counter's
  \<^verbatim>\<open>data[k].(float64)\<close> converted to \<^verbatim>\<open>int\<close>. \<open>keep res pick old\<close> is the field after the
  goroutine: the value \<open>pick\<close> finds in a successful result, the old value otherwise.
\<close>

definition as_string :: "json \<Rightarrow> string option" where
  "as_string v = (case v of JString x \<Rightarrow> Some x | _ \<Rightarrow> None)"

definition as_float64 :: "json \<Rightarrow> rat option" where
  "as_float64 v = (case v of JNumber x \<Rightarrow> Some x | _ \<Rightarrow> None)"

definition as_bool :: "json \<Rightarrow> bool option" where
  "as_bool v = (case v of JBool x \<Rightarrow> Some x | _ \<Rightarrow> None)"

definition as_count :: "world \<Rightarrow> string \<Rightarrow> json \<Rightarrow> int option" where
  "as_count w k v =
     (case v of
        JObject data \<Rightarrow>
          (case index_map data k of
             Some (JNumber x) \<Rightarrow> Some (int_of_float64 (out_of_range w) x)
           | _ \<Rightarrow> None)
      | _ \<Rightarrow> None)"

definition keep :: "(error + OpResponse) \<Rightarrow> (json \<Rightarrow> 'a option) \<Rightarrow> 'a \<Rightarrow> 'a" where
  "keep res pick old =
     (case res of
        Inl err \<Rightarrow> old
      | Inr resp \<Rightarrow> (case pick (Value resp) of Some x \<Rightarrow> x | None \<Rightarrow> old))"

text \<open>The members of an object, and a text of six bytes and five code points.\<close>

fun members :: "json \<Rightarrow> (string \<times> json) list" where
  "members (JObject ms) = ms"
| "members _ = []"

definition hello :: string where
  "hello = [CHR ''h'', CHR 0xC3, CHR 0xA9, CHR ''l'', CHR ''l'', CHR ''o'']"

text \<open>
  The shape each goroutine asserts of the value it gets, and the fields it writes, at
  their zero values.
\<close>

fun expected_shape :: "dep \<Rightarrow> json \<Rightarrow> bool" where
  "expected_shape Normalizer v = (case v of JString x \<Rightarrow> True | _ \<Rightarrow> False)"
| "expected_shape Transliterator v = (case v of JString x \<Rightarrow> True | _ \<Rightarrow> False)"
| "expected_shape Slugger v = (case v of JString x \<Rightarrow> True | _ \<Rightarrow> False)"
| "expected_shape Tokenizer v = (case v of JNumber x \<Rightarrow> True | _ \<Rightarrow> False)"
| "expected_shape Counter v = (case v of JObject x \<Rightarrow> True | _ \<Rightarrow> False)"
| "expected_shape Hasher v = (case v of JString x \<Rightarrow> True | _ \<Rightarrow> False)"
| "expected_shape EntropyDep v = (case v of JNumber x \<Rightarrow> True | _ \<Rightarrow> False)"
| "expected_shape PalindromeDep v = (case v of JBool x \<Rightarrow> True | _ \<Rightarrow> False)"

fun zero_fields :: "dep \<Rightarrow> AnalyseResponse \<Rightarrow> bool" where
  "zero_fields Normalizer r = (Normalized r = [])"
| "zero_fields Transliterator r = (Transliterated r = [])"
| "zero_fields Slugger r = (Slug r = [])"
| "zero_fields Tokenizer r = (Tokens r = 0)"
| "zero_fields Counter r = (UniqueWords r = 0 \<and> BigramCount r = 0 \<and> UniqueChars r = 0)"
| "zero_fields Hasher r = (Hash64 r = [])"
| "zero_fields EntropyDep r = (Entropy r = 0)"
| "zero_fields PalindromeDep r = (Palindrome r = False)"

subsection \<open>Worlds and requests to run the model on\<close>

text \<open>
  \<open>envelope\<close> is the body a downstream service writes on success, \<open>refusal\<close> the body the
  transliterator, the slugger and the normalizer write (with status 200) when they reject
  their input: a null value and an \<^verbatim>\<open>error\<close> member.
\<close>

definition envelope :: "string \<Rightarrow> json \<Rightarrow> body" where
  "envelope k v = Document (JObject [(''key'', JString k), (''value'', v), (''cache_hit'', JBool False)])"

definition refusal :: "string \<Rightarrow> string \<Rightarrow> body" where
  "refusal k e = Document (JObject
     [(''key'', JString k), (''value'', JNull), (''cache_hit'', JBool False), (''error'', JString e)])"

fun answer :: "dep \<Rightarrow> body" where
  "answer Normalizer = envelope ''normalized'' (JString ''a man a plan a canal panama'')"
| "answer Transliterator = envelope ''transliterated'' (JString ''a man a plan a canal panama'')"
| "answer Slugger = envelope ''slug'' (JString ''a-man-a-plan-a-canal-panama'')"
| "answer Tokenizer = envelope ''tokens'' (JNumber 7)"
| "answer Counter = envelope ''counts''
     (JObject [(''unique_words'', JNumber 6), (''bigram_count'', JNumber 6), (''unique_chars'', JNumber 15)])"
| "answer Hasher = envelope ''hash64'' (JString ''9ae16a3b2f90404f'')"
| "answer EntropyDep = envelope ''entropy'' (JNumber (13 / 4))"
| "answer PalindromeDep = envelope ''palindrome'' (JBool True)"

definition panama_text :: string where
  "panama_text = ''A man, a plan, a canal: Panama''"

definition panama :: world where
  "panama = \<lparr>Getenv = (\<lambda>k. []), Post = (\<lambda>d req. Response 200 (answer d)),
     out_of_range = amd64_oor,
     merge_order = [Hasher, Normalizer, PalindromeDep, Counter, Tokenizer, Slugger, EntropyDep, Transliterator]\<rparr>"

definition all_fail :: world where
  "all_fail = \<lparr>Getenv = (\<lambda>k. []), Post = (\<lambda>d req. PostFailed), out_of_range = amd64_oor,
     merge_order = [PalindromeDep, Normalizer, Counter, Slugger, Tokenizer, Hasher, Transliterator, EntropyDep]\<rparr>"

definition post_hi :: http_request where
  "post_hi = \<lparr>Method = ''POST'', Body = Document (JObject [(''text'', JString ''hi'')])\<rparr>"

definition get_hi :: http_request where
  "get_hi = \<lparr>Method = ''GET'', Body = Document (JObject [(''text'', JString ''hi'')])\<rparr>"

definition post_invalid :: http_request where
  "post_invalid = \<lparr>Method = ''POST'', Body = Invalid\<rparr>"

definition post_missing :: http_request where
  "post_missing = \<lparr>Method = ''POST'', Body = Document (JObject [(''note'', JString ''hi'')])\<rparr>"

definition post_empty :: http_request where
  "post_empty = \<lparr>Method = ''POST'', Body = Document (JObject [(''text'', JString [])])\<rparr>"

text \<open>
  Requests whose body carries bytes after its first value, names the member \<^verbatim>\<open>TeXt\<close>,
  or gives a number for the text; and a world with one base URL set in the environment.
\<close>

definition post_trailing :: http_request where
  "post_trailing = \<lparr>Method = ''POST'',
     Body = Trailing (JObject [(''text'', JString ''hi'')]) '' trailing garbage''\<rparr>"

definition post_TeXt :: http_request where
  "post_TeXt = \<lparr>Method = ''POST'', Body = Document (JObject [(''TeXt'', JString ''hi'')])\<rparr>"

definition post_number :: http_request where
  "post_number = \<lparr>Method = ''POST'', Body = Document (JObject [(''text'', JNumber 5)])\<rparr>"

definition post_panama :: http_request where
  "post_panama = \<lparr>Method = ''POST'', Body = Document (JObject [(''text'', JString panama_text)])\<rparr>"

definition relocated :: world where
  "relocated = panama\<lparr>Getenv := (\<lambda>k. if k = ''HASHER_URL'' then ''http://localhost:9006'' else [])\<rparr>"

text \<open>
  \<open>with_answer w d0 b\<close> is \<open>w\<close> with the dependency \<open>d0\<close> answering status 200 and the
  body \<open>b\<close>.
\<close>

definition with_answer :: "world \<Rightarrow> dep \<Rightarrow> body \<Rightarrow> world" where
  "with_answer w d0 b = w\<lparr>Post := (\<lambda>d req. if d = d0 then Response 200 b else Post w d req)\<rparr>"

definition mismatch :: world where
  "mismatch = with_answer panama Normalizer (envelope ''normalized'' (JNumber 5))"

definition partial_counts :: world where
  "partial_counts = with_answer panama Counter (envelope ''counts''
     (JObject [(''unique_words'', JString ''six''), (''bigram_count'', JNumber (13 / 2))]))"

definition negative_tokens :: world where
  "negative_tokens = with_answer panama Tokenizer (envelope ''tokens'' (JNumber (- 15 / 2)))"

definition huge_tokens :: world where
  "huge_tokens = with_answer panama Tokenizer (envelope ''tokens'' (JNumber 9223372036854775808))"

definition refused :: world where
  "refused = with_answer panama Transliterator
     (refusal ''transliterated'' ''Input text too long (max 10000 characters)'')"

section \<open>The goroutines, one by one and folded\<close>

lemma merge_response: "response (merge w d res s) = assemble w d res (response s)"
  unfolding assemble_def
  by (cases d; cases res; cases "Value (projr res)")
    (simp_all add: Let_def cong: option.case_cong json.case_cong)

lemma merge_errors: "errors (merge w d res s) = errors s @ recorded d res"
  unfolding recorded_def
  by (cases d; cases res; cases "Value (projr res)")
    (simp_all add: Let_def cong: option.case_cong json.case_cong)

lemma merge_wire: "wire (merge w d res s) = wire s"
  by (cases d; cases res; cases "Value (projr res)")
    (simp_all add: Let_def cong: option.case_cong json.case_cong)

lemma assemble_Normalizer:
  "assemble w Normalizer res r = r\<lparr>Normalized := keep res as_string (Normalized r)\<rparr>"
  by (cases res; cases "Value (projr res)") (simp_all add: assemble_def keep_def as_string_def)

lemma assemble_Transliterator:
  "assemble w Transliterator res r = r\<lparr>Transliterated := keep res as_string (Transliterated r)\<rparr>"
  by (cases res; cases "Value (projr res)") (simp_all add: assemble_def keep_def as_string_def)

lemma assemble_Slugger:
  "assemble w Slugger res r = r\<lparr>Slug := keep res as_string (Slug r)\<rparr>"
  by (cases res; cases "Value (projr res)") (simp_all add: assemble_def keep_def as_string_def)

lemma assemble_Tokenizer:
  "assemble w Tokenizer res r =
     r\<lparr>Tokens := keep res (map_option (int_of_float64 (out_of_range w)) \<circ> as_float64) (Tokens r)\<rparr>"
  by (cases res; cases "Value (projr res)") (simp_all add: assemble_def keep_def as_float64_def)

lemma assemble_Hasher:
  "assemble w Hasher res r = r\<lparr>Hash64 := keep res as_string (Hash64 r)\<rparr>"
  by (cases res; cases "Value (projr res)") (simp_all add: assemble_def keep_def as_string_def)

lemma assemble_EntropyDep:
  "assemble w EntropyDep res r = r\<lparr>Entropy := keep res as_float64 (Entropy r)\<rparr>"
  by (cases res; cases "Value (projr res)") (simp_all add: assemble_def keep_def as_float64_def)

lemma assemble_PalindromeDep:
  "assemble w PalindromeDep res r = r\<lparr>Palindrome := keep res as_bool (Palindrome r)\<rparr>"
  by (cases res; cases "Value (projr res)") (simp_all add: assemble_def keep_def as_bool_def)

lemma assemble_Counter:
  "assemble w Counter res r =
     r\<lparr>UniqueWords := keep res (as_count w ''unique_words'') (UniqueWords r),
       BigramCount := keep res (as_count w ''bigram_count'') (BigramCount r),
       UniqueChars := keep res (as_count w ''unique_chars'') (UniqueChars r)\<rparr>"
proof (cases res)
  case (Inl e)
  then show ?thesis by (simp add: assemble_def keep_def)
next
  case (Inr resp)
  show ?thesis
  proof (cases "Value resp")
    case (JObject data)
    show ?thesis
      unfolding assemble_def keep_def as_count_def Inr
      apply (simp add: JObject Let_def)
      apply (cases "index_map data ''unique_words''"; cases "index_map data ''bigram_count''";
          cases "index_map data ''unique_chars''")
             apply (simp_all split: json.splits)
      done
  qed (simp_all add: assemble_def keep_def as_count_def Inr)
qed

lemmas assemble_simps =
  assemble_Normalizer assemble_Transliterator assemble_Slugger assemble_Tokenizer
  assemble_Counter assemble_Hasher assemble_EntropyDep assemble_PalindromeDep

text \<open>Two goroutines write different fields, so their writes commute.\<close>

lemma assemble_commute:
  "assemble w d1 res1 (assemble w d2 res2 r) = assemble w d2 res2 (assemble w d1 res1 r) \<or> d1 = d2"
  by (cases d1; cases d2) (simp_all add: assemble_simps)

lemma fold_assemble_perm:
  assumes "mset ds = mset ds'"
  shows "fold (\<lambda>d. assemble w d (f d)) ds = fold (\<lambda>d. assemble w d (f d)) ds'"
proof (rule fold_multiset_equiv [OF _ assms])
  fix x y
  show "assemble w x (f x) \<circ> assemble w y (f y) = assemble w y (f y) \<circ> assemble w x (f x)"
    using assemble_commute [of w x "f x" y "f y"] by (auto simp: fun_eq_iff)
qed

lemma callMicroservice_sent: "snd (callMicroservice post url text) = [the_request url text]"
  by (simp add: callMicroservice_def json_Marshal_OpRequest_def the_request_def Second_def Let_def
      split: http_result.splits body.splits)

lemma callMicroservice_result:
  "fst (callMicroservice post url text) =
     (case post (the_request url text) of
        PostFailed \<Rightarrow> Inl PostError
      | Response c b \<Rightarrow> if c \<noteq> 200 then Inl (StatusError c) else json_Unmarshal_OpResponse b)"
  by (simp add: callMicroservice_def json_Marshal_OpRequest_def the_request_def Second_def Let_def
      json_Unmarshal_OpResponse_def unmarshal_OpResponse_def split: http_result.splits body.splits)

lemma goroutine_response:
  "response (goroutine w text d s) = assemble w d (outcome w text d) (response s)"
  by (simp add: goroutine_def outcome_def merge_response split: prod.splits)

lemma goroutine_errors:
  "errors (goroutine w text d s) = errors s @ recorded d (outcome w text d)"
  by (simp add: goroutine_def outcome_def merge_errors split: prod.splits)

lemma goroutine_wire:
  "wire (goroutine w text d s) = wire s @ [(d, the_request (baseURL w d) text)]"
proof -
  obtain res sent where c: "callMicroservice (Post w d) (baseURL w d) text = (res, sent)"
    by (cases "callMicroservice (Post w d) (baseURL w d) text")
  have "sent = [the_request (baseURL w d) text]"
    using callMicroservice_sent [of "Post w d" "baseURL w d" "text"] c by simp
  then show ?thesis by (simp add: goroutine_def c)
qed

lemma fold_response:
  "response (fold (goroutine w text) ds s) =
   fold (\<lambda>d. assemble w d (outcome w text d)) ds (response s)"
  by (induction ds arbitrary: s) (simp_all add: goroutine_response)

lemma fold_errors:
  "errors (fold (goroutine w text) ds s) =
   errors s @ concat (map (\<lambda>d. recorded d (outcome w text d)) ds)"
  by (induction ds arbitrary: s) (simp_all add: goroutine_errors)

lemma fold_wire:
  "wire (fold (goroutine w text) ds s) =
   wire s @ map (\<lambda>d. (d, the_request (baseURL w d) text)) ds"
  by (induction ds arbitrary: s) (simp_all add: goroutine_wire)

text \<open>The shared state at the join, field by field.\<close>

lemma join_response:
  assumes "run w"
  shows "response (join w text) =
    \<lparr>Normalized = keep (outcome w text Normalizer) as_string [],
     Transliterated = keep (outcome w text Transliterator) as_string [],
     Slug = keep (outcome w text Slugger) as_string [],
     Tokens = keep (outcome w text Tokenizer)
                (map_option (int_of_float64 (out_of_range w)) \<circ> as_float64) 0,
     UniqueWords = keep (outcome w text Counter) (as_count w ''unique_words'') 0,
     BigramCount = keep (outcome w text Counter) (as_count w ''bigram_count'') 0,
     CharCount = int (length text),
     UniqueChars = keep (outcome w text Counter) (as_count w ''unique_chars'') 0,
     Hash64 = keep (outcome w text Hasher) as_string [],
     Entropy = keep (outcome w text EntropyDep) as_float64 0,
     Palindrome = keep (outcome w text PalindromeDep) as_bool False,
     Degraded = False\<rparr>"
proof -
  have "fold (\<lambda>d. assemble w d (outcome w text d)) (merge_order w) =
        fold (\<lambda>d. assemble w d (outcome w text d)) all_deps"
    using assms unfolding run_def by (rule fold_assemble_perm)
  then show ?thesis
    by (simp add: join_def fold_response all_deps_def assemble_simps)
qed

lemma join_errors:
  "errors (join w text) = concat (map (\<lambda>d. recorded d (outcome w text d)) (merge_order w))"
  by (simp add: join_def fold_errors)

lemma join_wire:
  "wire (join w text) = map (\<lambda>d. (d, the_request (baseURL w d) text)) (merge_order w)"
  by (simp add: join_def fold_wire)

lemma join_not_degraded: "Degraded (response (join w text)) = False"
proof -
  have "Degraded (fold (\<lambda>d. assemble w d (f d)) ds r) = Degraded r" for ds r f
  proof (induction ds arbitrary: r)
    case (Cons d ds)
    have "Degraded (assemble w d (f d) r) = Degraded r"
      by (cases d) (simp_all add: assemble_simps)
    with Cons show ?case by simp
  qed simp
  then show ?thesis by (simp add: join_def fold_response)
qed

lemma join_CharCount: "CharCount (response (join w text)) = int (length text)"
proof -
  have "CharCount (fold (\<lambda>d. assemble w d (f d)) ds r) = CharCount r" for ds r f
  proof (induction ds arbitrary: r)
    case (Cons d ds)
    have "CharCount (assemble w d (f d) r) = CharCount r"
      by (cases d) (simp_all add: assemble_simps)
    with Cons show ?case by simp
  qed simp
  then show ?thesis by (simp add: join_def fold_response)
qed

lemma outcome_merge_order [simp]: "outcome (w\<lparr>merge_order := ord\<rparr>) text d = outcome w text d"
  by (cases d) (simp_all add: outcome_def normalizerURL_def transliteratorURL_def sluggerURL_def
      tokenizerURL_def counterURL_def hasherURL_def entropyURL_def palindromeURL_def getEnv_def)

lemma as_count_merge_order [simp]: "as_count (w\<lparr>merge_order := ord\<rparr>) = as_count w"
  by (simp add: as_count_def fun_eq_iff cong: json.case_cong option.case_cong)

lemma run_merge_order [simp]: "run (w\<lparr>merge_order := ord\<rparr>) = (mset ord = mset all_deps)"
  by (simp add: run_def)

lemma errors_nonempty_iff:
  "(errors (join w text) \<noteq> []) = (\<exists>d \<in> set (merge_order w). isl (outcome w text d))"
proof -
  have "(concat (map (\<lambda>d. recorded d (outcome w text d)) ds) \<noteq> []) =
        (\<exists>d \<in> set ds. isl (outcome w text d))" for ds
    by (induction ds) (auto simp: recorded_def split: sum.splits)
  then show ?thesis
    by (simp add: join_errors)
qed

lemma run_set: "run w \<Longrightarrow> set (merge_order w) = UNIV"
proof -
  assume "run w"
  then have "set (merge_order w) = set all_deps"
    unfolding run_def by (rule mset_eq_setD)
  moreover have "d \<in> set all_deps" for d
    by (cases d) (simp_all add: all_deps_def)
  ultimately show ?thesis by auto
qed

lemma aggregate_response:
  "fst (fst (aggregateAnalysis w text)) =
     (response (join w text))\<lparr>Degraded := (\<exists>d \<in> set (merge_order w). isl (outcome w text d))\<rparr>"
proof -
  have "Degraded (response (join w text)) = False" by (rule join_not_degraded)
  then have "(response (join w text))\<lparr>Degraded := False\<rparr> = response (join w text)"
    by simp
  moreover have "(errors (join w text) \<noteq> []) = (\<exists>d \<in> set (merge_order w). isl (outcome w text d))"
    by (rule errors_nonempty_iff)
  ultimately show ?thesis
    by (simp add: aggregateAnalysis_def Let_def)
qed

lemma run_all_fail: "run all_fail"
  by (simp add: run_def all_fail_def all_deps_def)

lemma run_panama: "run panama"
  by (simp add: run_def panama_def all_deps_def)

lemma foldName_consts:
  "foldName ''key'' = ''KEY''" "foldName ''value'' = ''VALUE''" "foldName ''cache_hit'' = ''CACHE_HIT''"
  "foldName ''text'' = ''TEXT''" "foldName ''error'' = ''ERROR''"
  by (simp_all add: upper_def)

lemma unmarshal_envelope:
  "json_Unmarshal_OpResponse (envelope k v) = Inr \<lparr>Key = k, Value = v, CacheHit = False\<rparr>"
  by (simp add: json_Unmarshal_OpResponse_def unmarshal_OpResponse_def envelope_def foldName_consts)

lemma outcome_panama:
  "outcome panama text d = json_Unmarshal_OpResponse (answer d)"
  by (simp add: outcome_def callMicroservice_result panama_def)

lemma panama_no_failure: "\<not> isl (outcome panama text d)"
  by (cases d) (simp_all add: outcome_panama unmarshal_envelope)

lemma errname_inj: "(errname d = errname d') = (d = d')"
  by (cases d; cases d') simp_all

lemma errors_set:
  "set (errors (join w text)) = {(errname d, e) | d e. d \<in> set (merge_order w) \<and> outcome w text d = Inl e}"
proof -
  have "set (concat (map (\<lambda>d. recorded d (outcome w text d)) ds)) =
        {(errname d, e) | d e. d \<in> set ds \<and> outcome w text d = Inl e}" for ds
    by (induction ds) (auto simp: recorded_def split: sum.splits)
  then show ?thesis by (simp add: join_errors)
qed

lemma not_recorded:
  assumes "outcome w text d = Inr resp"
  shows "errname d \<notin> fst ` set (errors (join w text))"
  using assms by (auto simp: errors_set errname_inj)

lemma merge_mismatch:
  assumes "\<not> expected_shape d (Value resp)"
  shows "merge w d (Inr resp) s = s"
  using assms by (cases d; cases "Value resp") simp_all

lemma keep_mismatch:
  assumes "run w" and "outcome w text d = Inr resp" and "\<not> expected_shape d (Value resp)"
  shows "zero_fields d (response (join w text))"
  using assms(2,3)
  by (cases d; cases "Value resp")
    (simp_all add: join_response [OF assms(1)] keep_def as_string_def as_float64_def as_bool_def as_count_def)

lemma zero_fields_Degraded [simp]: "zero_fields d (r\<lparr>Degraded := b\<rparr>) = zero_fields d r"
  by (cases d) simp_all

lemma degraded_others:
  assumes "run w" and "outcome w text d = Inr resp"
  shows "Degraded (fst (fst (aggregateAnalysis w text))) = (\<exists>d'. d' \<noteq> d \<and> isl (outcome w text d'))"
proof -
  have "(\<exists>d'. isl (outcome w text d')) = (\<exists>d'. d' \<noteq> d \<and> isl (outcome w text d'))"
    using assms(2) by (metis sum.disc(2))
  then show ?thesis
    by (simp add: aggregate_response run_set [OF assms(1)])
qed

lemma run_with_answer [simp]: "run (with_answer w d0 b) = run w"
  by (simp add: run_def with_answer_def)

lemma baseURL_with_answer [simp]: "baseURL (with_answer w d0 b) d = baseURL w d"
  by (cases d) (simp_all add: with_answer_def normalizerURL_def transliteratorURL_def sluggerURL_def
      tokenizerURL_def counterURL_def hasherURL_def entropyURL_def palindromeURL_def getEnv_def)

lemma outcome_with_answer:
  "outcome (with_answer w d0 b) text d =
     (if d = d0 then json_Unmarshal_OpResponse b else outcome w text d)"
proof -
  have "Post (with_answer w d0 b) d = (if d = d0 then (\<lambda>req. Response 200 b) else Post w d)"
    by (auto simp: with_answer_def)
  then show ?thesis
    by (simp add: outcome_def callMicroservice_result)
qed

lemma out_of_range_with_answer [simp]: "out_of_range (with_answer w d0 b) = out_of_range w"
  by (simp add: with_answer_def)

lemma merge_order_with_answer [simp]: "merge_order (with_answer w d0 b) = merge_order w"
  by (simp add: with_answer_def)

lemma trunc_towards_zero:
  "\<bar>of_int (trunc v)\<bar> \<le> \<bar>v\<bar> \<and> \<bar>v - of_int (trunc v)\<bar> < 1"
  unfolding trunc_def by (auto; linarith)

lemma int_of_float64_range: "- (2 ^ 63) \<le> int_of_float64 oor v \<and> int_of_float64 oor v < 2 ^ 63"
proof (cases "- (2 ^ 63) \<le> trunc v \<and> trunc v < 2 ^ 63")
  case True
  then show ?thesis by (simp add: int_of_float64_def)
next
  case False
  have "- (2 ^ 63) \<le> sint (oor v)" "sint (oor v) < 2 ^ 63"
    using sint_ge [of "oor v"] sint_lt [of "oor v"] by simp_all
  with False show ?thesis by (simp add: int_of_float64_def)
qed

lemma tokens_never_2_63:
  assumes "run w" and "outcome w text Tokenizer = Inr resp" and "Value resp = JNumber (2 ^ 63)"
  shows "Tokens (fst (fst (aggregateAnalysis w text))) < trunc (2 ^ 63)"
proof -
  have "trunc (2 ^ 63) = 2 ^ 63" by (simp add: trunc_def)
  moreover have "Tokens (fst (fst (aggregateAnalysis w text))) = int_of_float64 (out_of_range w) (2 ^ 63)"
    by (simp add: aggregate_response join_response [OF assms(1)] assms(2,3) keep_def as_float64_def)
  ultimately show ?thesis using int_of_float64_range [of "out_of_range w" "2 ^ 63"] by simp
qed

lemma object_OpResponse_skips_error:
  "object_OpResponse [m \<leftarrow> ms. fst m \<noteq> ''error''] st = object_OpResponse ms st"
proof (induction ms arbitrary: st)
  case Nil
  show ?case by simp
next
  case (Cons m ms)
  obtain k v where m: "m = (k, v)" by (cases m)
  obtain r saved where st: "st = (r, saved)" by (cases st)
  show ?case
  proof (cases "k = ''error''")
    case True
    then show ?thesis by (simp add: m st Cons upper_def)
  next
    case False
    then show ?thesis by (simp add: m st Cons)
  qed
qed

lemma unmarshal_skips_error:
  "json_Unmarshal_OpResponse (Document (JObject [m \<leftarrow> ms. fst m \<noteq> ''error''])) =
   json_Unmarshal_OpResponse (Document (JObject ms))"
  by (simp add: json_Unmarshal_OpResponse_def unmarshal_OpResponse_def object_OpResponse_skips_error)

lemma handler_wire:
  assumes "Method r = ''POST''" and "Decode_AnalyseRequest (Body r) = Inr req" and "Text req \<noteq> []"
  shows "snd (handleAnalyze w r) = snd (aggregateAnalysis w (Text req))"
proof -
  have "snd (fst (aggregateAnalysis w (Text req))) = None"
    by (simp add: aggregateAnalysis_def Let_def)
  then show ?thesis
    using assms by (cases "aggregateAnalysis w (Text req)") (auto simp: handleAnalyze_def)
qed

lemma aggregate_shape: "\<exists>resp sent. aggregateAnalysis w t = ((resp, None), sent)"
  by (simp add: aggregateAnalysis_def Let_def)

lemma handler_never_500: "StatusCode (fst (handleAnalyze w r)) \<noteq> 500"
proof (cases "Method r \<noteq> ''POST''")
  case True
  then show ?thesis by (simp add: handleAnalyze_def http_Error_def)
next
  case post: False
  show ?thesis
  proof (cases "Decode_AnalyseRequest (Body r)")
    case (Inl e)
    with post show ?thesis by (simp add: handleAnalyze_def http_Error_def)
  next
    case (Inr req)
    obtain resp sent where "aggregateAnalysis w (Text req) = ((resp, None), sent)"
      using aggregate_shape by blast
    with post Inr show ?thesis by (simp add: handleAnalyze_def http_Error_def)
  qed
qed

lemma object_AnalyseRequest_skip:
  assumes "\<forall>m \<in> set ms. foldName (fst m) \<noteq> foldName ''text''"
  shows "object_AnalyseRequest ms s = s"
  using assms
proof (induction ms)
  case Nil
  show ?case by simp
next
  case (Cons m ms)
  obtain k v where m: "m = (k, v)" by (cases m)
  obtain q saved where s: "s = (q, saved)" by (cases s)
  from Cons show ?case by (simp add: m s)
qed

lemma object_AnalyseRequest_saved:
  "snd (object_AnalyseRequest ms (r, Some e)) = Some e"
proof (induction ms arbitrary: r)
  case Nil
  show ?case by simp
next
  case (Cons m ms)
  obtain k v where m: "m = (k, v)" by (cases m)
  show ?case
    by (cases v) (simp_all add: m Cons saveError_def)
qed

lemma object_AnalyseRequest_bad:
  assumes "(k, v) \<in> set ms" and "foldName k = foldName ''text''"
    and "v \<noteq> JNull" and "\<forall>x. v \<noteq> JString x"
  shows "snd (object_AnalyseRequest ms s) \<noteq> None"
  using assms(1)
proof (induction ms arbitrary: s)
  case Nil
  then show ?case by simp
next
  case (Cons m ms)
  obtain k' v' where m: "m = (k', v')" by (cases m)
  obtain r saved where s: "s = (r, saved)" by (cases s)
  show ?case
  proof (cases "m = (k, v)")
    case True
    have "saveError UnmarshalTypeError saved \<noteq> None"
      by (cases saved) (simp_all add: saveError_def)
    then obtain e where e: "saveError UnmarshalTypeError saved = Some e" by auto
    show ?thesis
      using assms(2,3,4) True object_AnalyseRequest_saved [of ms r e]
      by (cases v) (simp_all add: e s)
  next
    case False
    with Cons.prems have "(k, v) \<in> set ms" by simp
    from Cons.IH [OF this] show ?thesis
      by (simp add: m s)
  qed
qed

lemma handler_valid:
  assumes "Method r = ''POST''" and "Decode_AnalyseRequest (Body r) = Inr req" and "Text req \<noteq> []"
  shows "fst (handleAnalyze w r) =
        \<lparr>StatusCode = 200, Header_ContentType = ''application/json'',
         Written = Json (json_Marshal_AnalyseResponse (fst (fst (aggregateAnalysis w (Text req)))))\<rparr>"
proof -
  obtain resp sent where "aggregateAnalysis w (Text req) = ((resp, None), sent)"
    using aggregate_shape by blast
  with assms show ?thesis by (simp add: handleAnalyze_def)
qed

lemma aggregate_panama:
  "fst (aggregateAnalysis panama panama_text) =
       (\<lparr>Normalized = ''a man a plan a canal panama'',
         Transliterated = ''a man a plan a canal panama'',
         Slug = ''a-man-a-plan-a-canal-panama'', Tokens = 7, UniqueWords = 6,
         BigramCount = 6, CharCount = 30, UniqueChars = 15, Hash64 = ''9ae16a3b2f90404f'',
         Entropy = 13 / 4, Palindrome = True, Degraded = False\<rparr>, None)"
proof -
  have t: "trunc 7 = 7" "trunc 6 = 6" "trunc 15 = 15" by (simp_all add: trunc_def)
  show ?thesis
    apply (simp add: prod_eq_iff aggregate_response join_response [OF run_panama] panama_no_failure)
    apply (simp add: outcome_panama unmarshal_envelope)
    apply (simp add: keep_def as_string_def as_float64_def as_bool_def as_count_def index_map_def
        int_of_float64_def t panama_text_def aggregateAnalysis_def Let_def)
    done
qed

lemma run_relocated: "run relocated"
  using run_panama by (simp add: run_def relocated_def)

section \<open>The claims\<close>

text \<open>
  C1. The error that \<open>aggregateAnalysis\<close> returns is nil for every text and every world,
  so \<open>handleAnalyze\<close> never answers 500. Once the request is a POST whose body decodes to
  a non-empty text, the reply has status 200 and its body is the JSON object of the twelve
  members of the response, \<open>normalized\<close> to \<open>degraded\<close>, each with the value of its field,
  whatever the eight calls come back with. When all eight fail, the response is degraded,
  \<open>char_count\<close> is the length of the text, and every other field is zero.
\<close>

theorem C1_always_200:
  assumes "run w" and "Method r = ''POST''" and "Decode_AnalyseRequest (Body r) = Inr req"
    and "Text req \<noteq> []"
  shows "snd (fst (aggregateAnalysis w' t)) = None
    \<and> StatusCode (fst (handleAnalyze w' r')) \<noteq> 500
    \<and> (let a = fst (fst (aggregateAnalysis w (Text req))) in
        fst (handleAnalyze w r) =
          \<lparr>StatusCode = 200, Header_ContentType = ''application/json'',
           Written = Json (JObject
             [(''normalized'', JString (Normalized a)),
              (''transliterated'', JString (Transliterated a)),
              (''slug'', JString (Slug a)),
              (''tokens'', JNumber (of_int (Tokens a))),
              (''unique_words'', JNumber (of_int (UniqueWords a))),
              (''bigram_count'', JNumber (of_int (BigramCount a))),
              (''char_count'', JNumber (of_int (CharCount a))),
              (''unique_chars'', JNumber (of_int (UniqueChars a))),
              (''hash64'', JString (Hash64 a)),
              (''entropy'', JNumber (Entropy a)),
              (''palindrome'', JBool (Palindrome a)),
              (''degraded'', JBool (Degraded a))])\<rparr>)
    \<and> ((\<forall>d. isl (outcome w (Text req) d)) \<longrightarrow>
         fst (fst (aggregateAnalysis w (Text req))) =
           \<lparr>Normalized = [], Transliterated = [], Slug = [], Tokens = 0, UniqueWords = 0,
            BigramCount = 0, CharCount = int (length (Text req)), UniqueChars = 0, Hash64 = [],
            Entropy = 0, Palindrome = False, Degraded = True\<rparr>)"
proof -
  have a: "snd (fst (aggregateAnalysis v u)) = None" for v u
    by (simp add: aggregateAnalysis_def Let_def)
  have b: "let a = fst (fst (aggregateAnalysis w (Text req))) in
        fst (handleAnalyze w r) =
          \<lparr>StatusCode = 200, Header_ContentType = ''application/json'',
           Written = Json (JObject
             [(''normalized'', JString (Normalized a)),
              (''transliterated'', JString (Transliterated a)),
              (''slug'', JString (Slug a)),
              (''tokens'', JNumber (of_int (Tokens a))),
              (''unique_words'', JNumber (of_int (UniqueWords a))),
              (''bigram_count'', JNumber (of_int (BigramCount a))),
              (''char_count'', JNumber (of_int (CharCount a))),
              (''unique_chars'', JNumber (of_int (UniqueChars a))),
              (''hash64'', JString (Hash64 a)),
              (''entropy'', JNumber (Entropy a)),
              (''palindrome'', JBool (Palindrome a)),
              (''degraded'', JBool (Degraded a))])\<rparr>"
    unfolding Let_def handler_valid [OF assms(2,3,4)]
    by (simp add: json_Marshal_AnalyseResponse_def)
  have c: "fst (fst (aggregateAnalysis w (Text req))) =
           \<lparr>Normalized = [], Transliterated = [], Slug = [], Tokens = 0, UniqueWords = 0,
            BigramCount = 0, CharCount = int (length (Text req)), UniqueChars = 0, Hash64 = [],
            Entropy = 0, Palindrome = False, Degraded = True\<rparr>"
    if f: "\<forall>d. isl (outcome w (Text req) d)"
  proof -
    have k: "keep (outcome w (Text req) d) pick old = old" for d and pick :: "json \<Rightarrow> 'a option" and old
      using f [rule_format, of d] by (cases "outcome w (Text req) d") (simp_all add: keep_def)
    have "\<exists>d \<in> set (merge_order w). isl (outcome w (Text req) d)"
      using f run_set [OF assms(1)] by auto
    then show ?thesis
      by (simp add: aggregate_response join_response [OF assms(1)] k)
  qed
  from a [of w' t] handler_never_500 [of w' r'] b c show ?thesis by blast
qed

text \<open>
  The theorem at a world where every call fails in transport, and at the world of the
  end-to-end scenario, with the reply that is written in each.
\<close>

theorem C1_witness:
  "run all_fail \<and> Method post_hi = ''POST'' \<and> Decode_AnalyseRequest (Body post_hi) = Inr \<lparr>Text = ''hi''\<rparr>
   \<and> snd (fst (aggregateAnalysis all_fail ''hi'')) = None
   \<and> (\<forall>d. isl (outcome all_fail ''hi'' d))
   \<and> fst (fst (aggregateAnalysis all_fail ''hi'')) =
       \<lparr>Normalized = [], Transliterated = [], Slug = [], Tokens = 0, UniqueWords = 0,
        BigramCount = 0, CharCount = 2, UniqueChars = 0, Hash64 = [],
        Entropy = 0, Palindrome = False, Degraded = True\<rparr>
   \<and> fst (handleAnalyze all_fail post_hi) =
       \<lparr>StatusCode = 200, Header_ContentType = ''application/json'',
        Written = Json (JObject
          [(''normalized'', JString []), (''transliterated'', JString []), (''slug'', JString []),
           (''tokens'', JNumber 0), (''unique_words'', JNumber 0), (''bigram_count'', JNumber 0),
           (''char_count'', JNumber 2), (''unique_chars'', JNumber 0), (''hash64'', JString []),
           (''entropy'', JNumber 0), (''palindrome'', JBool False), (''degraded'', JBool True)])\<rparr>
   \<and> run panama \<and> Method post_panama = ''POST''
   \<and> Decode_AnalyseRequest (Body post_panama) = Inr \<lparr>Text = panama_text\<rparr>
   \<and> fst (handleAnalyze panama post_panama) =
       \<lparr>StatusCode = 200, Header_ContentType = ''application/json'',
        Written = Json (JObject
          [(''normalized'', JString ''a man a plan a canal panama''),
           (''transliterated'', JString ''a man a plan a canal panama''),
           (''slug'', JString ''a-man-a-plan-a-canal-panama''),
           (''tokens'', JNumber 7), (''unique_words'', JNumber 6), (''bigram_count'', JNumber 6),
           (''char_count'', JNumber 30), (''unique_chars'', JNumber 15),
           (''hash64'', JString ''9ae16a3b2f90404f''), (''entropy'', JNumber (13 / 4)),
           (''palindrome'', JBool True), (''degraded'', JBool False)])\<rparr>"
proof -
  have h1: "run all_fail" by (rule run_all_fail)
  have h2: "Method post_hi = ''POST''" by (simp add: post_hi_def)
  have h3: "Decode_AnalyseRequest (Body post_hi) = Inr \<lparr>Text = ''hi''\<rparr>"
    by (simp add: post_hi_def Decode_AnalyseRequest_def unmarshal_AnalyseRequest_def upper_def)
  have h4: "Text \<lparr>Text = ''hi''\<rparr> \<noteq> []" by simp
  have h5: "\<forall>d. isl (outcome all_fail ''hi'' d)"
    by (simp add: outcome_def callMicroservice_result all_fail_def)
  have g1: "run panama" by (rule run_panama)
  have g2: "Method post_panama = ''POST''" by (simp add: post_panama_def)
  have g3: "Decode_AnalyseRequest (Body post_panama) = Inr \<lparr>Text = panama_text\<rparr>"
    by (simp add: post_panama_def Decode_AnalyseRequest_def unmarshal_AnalyseRequest_def upper_def)
  have g4: "Text \<lparr>Text = panama_text\<rparr> \<noteq> []" by (simp add: panama_text_def)
  have g5: "fst (fst (aggregateAnalysis panama panama_text)) =
       \<lparr>Normalized = ''a man a plan a canal panama'',
         Transliterated = ''a man a plan a canal panama'',
         Slug = ''a-man-a-plan-a-canal-panama'', Tokens = 7, UniqueWords = 6,
         BigramCount = 6, CharCount = 30, UniqueChars = 15, Hash64 = ''9ae16a3b2f90404f'',
         Entropy = 13 / 4, Palindrome = True, Degraded = False\<rparr>"
    by (simp add: aggregate_panama)
  from C1_always_200 [OF h1 h2 h3 h4, where w' = all_fail and t = "''hi''" and r' = post_hi]
    C1_always_200 [OF g1 g2 g3 g4, where w' = panama and t = panama_text and r' = post_panama]
    h1 h2 h3 h5 g1 g2 g3 g5
  show ?thesis by (simp add: Let_def)
qed

text \<open>
  C2. After the join, \<open>degraded\<close> is true exactly when the error list is not empty, in
  every run and for every outcome of the eight calls. The error list holds one entry for
  each goroutine whose call failed, so \<open>degraded\<close> is true exactly when some call failed.
\<close>

theorem C2_degraded_iff_errors:
  "Degraded (fst (fst (aggregateAnalysis w text))) = (errors (join w text) \<noteq> [])
   \<and> errors (join w text) = concat (map (\<lambda>d. recorded d (outcome w text d)) (merge_order w))
   \<and> (errors (join w text) \<noteq> []) = (\<exists>d \<in> set (merge_order w). isl (outcome w text d))"
proof -
  have "Degraded (fst (fst (aggregateAnalysis w text))) = (errors (join w text) \<noteq> [])"
    by (simp add: aggregateAnalysis_def Let_def join_not_degraded)
  then show ?thesis
    using join_errors [of w "text"] errors_nonempty_iff [of w "text"] by simp
qed

text \<open>
  C3. When a call succeeds and its value does not have the shape the goroutine asserts
  (a number where a string is expected, null, ...), the goroutine changes nothing: its
  fields stay zero and no error is recorded under its name, so \<open>degraded\<close> is decided by
  the other dependencies alone. When the counter's value is an object, a member that is
  missing or not a number leaves its field at zero, again with no error. The error list
  holds exactly the failed calls.
\<close>

theorem C3_shape_mismatch_is_silent:
  assumes "run w"
  shows "(outcome w text d = Inr resp \<and> \<not> expected_shape d (Value resp) \<longrightarrow>
           merge w d (outcome w text d) s = s
         \<and> zero_fields d (fst (fst (aggregateAnalysis w text)))
         \<and> errname d \<notin> fst ` set (errors (join w text))
         \<and> Degraded (fst (fst (aggregateAnalysis w text))) = (\<exists>d'. d' \<noteq> d \<and> isl (outcome w text d')))
    \<and> (outcome w text Counter = Inr cresp \<and> Value cresp = JObject data \<longrightarrow>
           ((\<forall>x. index_map data ''unique_words'' \<noteq> Some (JNumber x)) \<longrightarrow>
              UniqueWords (fst (fst (aggregateAnalysis w text))) = 0)
         \<and> ((\<forall>x. index_map data ''bigram_count'' \<noteq> Some (JNumber x)) \<longrightarrow>
              BigramCount (fst (fst (aggregateAnalysis w text))) = 0)
         \<and> ((\<forall>x. index_map data ''unique_chars'' \<noteq> Some (JNumber x)) \<longrightarrow>
              UniqueChars (fst (fst (aggregateAnalysis w text))) = 0)
         \<and> ''counter'' \<notin> fst ` set (errors (join w text)))
    \<and> set (errors (join w text)) = {(errname d', e) | d' e. outcome w text d' = Inl e}"
proof -
  have A: "merge w d (outcome w text d) s = s
         \<and> zero_fields d (fst (fst (aggregateAnalysis w text)))
         \<and> errname d \<notin> fst ` set (errors (join w text))
         \<and> Degraded (fst (fst (aggregateAnalysis w text))) = (\<exists>d'. d' \<noteq> d \<and> isl (outcome w text d'))"
    if o: "outcome w text d = Inr resp" and m: "\<not> expected_shape d (Value resp)"
  proof -
    have "merge w d (outcome w text d) s = s"
      using m by (simp add: o merge_mismatch)
    moreover have "zero_fields d (fst (fst (aggregateAnalysis w text)))"
      using keep_mismatch [OF assms o m] by (simp add: aggregate_response)
    moreover have "errname d \<notin> fst ` set (errors (join w text))"
      using o by (rule not_recorded)
    moreover have "Degraded (fst (fst (aggregateAnalysis w text))) = (\<exists>d'. d' \<noteq> d \<and> isl (outcome w text d'))"
      using assms o by (rule degraded_others)
    ultimately show ?thesis by blast
  qed
  have B: "((\<forall>x. index_map data ''unique_words'' \<noteq> Some (JNumber x)) \<longrightarrow>
              UniqueWords (fst (fst (aggregateAnalysis w text))) = 0)
         \<and> ((\<forall>x. index_map data ''bigram_count'' \<noteq> Some (JNumber x)) \<longrightarrow>
              BigramCount (fst (fst (aggregateAnalysis w text))) = 0)
         \<and> ((\<forall>x. index_map data ''unique_chars'' \<noteq> Some (JNumber x)) \<longrightarrow>
              UniqueChars (fst (fst (aggregateAnalysis w text))) = 0)
         \<and> ''counter'' \<notin> fst ` set (errors (join w text))"
    if o: "outcome w text Counter = Inr cresp" and v: "Value cresp = JObject data"
  proof -
    have k: "keep (outcome w text Counter) (as_count w k) 0 = 0"
      if "\<forall>x. index_map data k \<noteq> Some (JNumber x)" for k
      using that by (simp add: o v keep_def as_count_def split: option.splits json.splits)
    have "errname Counter \<notin> fst ` set (errors (join w text))"
      using o by (rule not_recorded)
    then show ?thesis
      by (simp add: aggregate_response join_response [OF assms] k)
  qed
  have C: "set (errors (join w text)) = {(errname d', e) | d' e. outcome w text d' = Inl e}"
    by (simp add: errors_set run_set [OF assms])
  from A B C show ?thesis by blast
qed

text \<open>
  The theorem at the world of the end-to-end scenario with the normalizer answering the
  number 5 (the field stays empty, nothing is recorded, the response is not degraded),
  and with the counter answering a string for \<open>unique_words\<close> and no \<open>unique_chars\<close>.
\<close>

theorem C3_witness:
  "run mismatch
   \<and> outcome mismatch panama_text Normalizer = Inr \<lparr>Key = ''normalized'', Value = JNumber 5, CacheHit = False\<rparr>
   \<and> \<not> expected_shape Normalizer (JNumber 5)
   \<and> Normalized (fst (fst (aggregateAnalysis mismatch panama_text))) = []
   \<and> set (errors (join mismatch panama_text)) = {}
   \<and> \<not> Degraded (fst (fst (aggregateAnalysis mismatch panama_text)))
   \<and> run partial_counts
   \<and> outcome partial_counts panama_text Counter =
       Inr \<lparr>Key = ''counts'', Value = JObject [(''unique_words'', JString ''six''), (''bigram_count'', JNumber (13 / 2))], CacheHit = False\<rparr>
   \<and> UniqueWords (fst (fst (aggregateAnalysis partial_counts panama_text))) = 0
   \<and> UniqueChars (fst (fst (aggregateAnalysis partial_counts panama_text))) = 0
   \<and> set (errors (join partial_counts panama_text)) = {}"
proof -
  let ?data = "[(''unique_words'', JString ''six''), (''bigram_count'', JNumber (13 / 2))]"
  have h1: "run mismatch" by (simp add: mismatch_def run_panama)
  have h2: "outcome mismatch panama_text Normalizer = Inr \<lparr>Key = ''normalized'', Value = JNumber 5, CacheHit = False\<rparr>"
    by (simp add: mismatch_def outcome_with_answer unmarshal_envelope)
  have o: "outcome mismatch panama_text d \<noteq> Inl e" for d e
    by (cases d) (simp_all add: mismatch_def outcome_with_answer unmarshal_envelope outcome_panama)
  have o': "\<not> isl (outcome mismatch panama_text d)" for d
    by (cases "outcome mismatch panama_text d") (simp_all add: o)
  have g1: "run partial_counts" by (simp add: partial_counts_def run_panama)
  have g2: "outcome partial_counts panama_text Counter =
       Inr \<lparr>Key = ''counts'', Value = JObject ?data, CacheHit = False\<rparr>"
    by (simp add: partial_counts_def outcome_with_answer unmarshal_envelope)
  have p: "outcome partial_counts panama_text d \<noteq> Inl e" for d e
    by (cases d) (simp_all add: partial_counts_def outcome_with_answer unmarshal_envelope outcome_panama)
  have i: "index_map ?data ''unique_words'' = Some (JString ''six'')"
    "index_map ?data ''unique_chars'' = None"
    by (simp_all add: index_map_def)
  show ?thesis
    using C3_shape_mismatch_is_silent [OF h1, of panama_text Normalizer "\<lparr>Key = ''normalized'', Value = JNumber 5, CacheHit = False\<rparr>"
        "join mismatch panama_text"
        "\<lparr>Key = ''counts'', Value = JObject [(''unique_words'', JNumber 6), (''bigram_count'', JNumber 6), (''unique_chars'', JNumber 15)], CacheHit = False\<rparr>"
        "[(''unique_words'', JNumber 6), (''bigram_count'', JNumber 6), (''unique_chars'', JNumber 15)]"]
      C3_shape_mismatch_is_silent [OF g1, of panama_text Counter "\<lparr>Key = ''counts'', Value = JObject ?data, CacheHit = False\<rparr>"
        "join partial_counts panama_text"
        "\<lparr>Key = ''counts'', Value = JObject ?data, CacheHit = False\<rparr>" ?data]
      h1 h2 g1 g2
    by (simp add: o o' p i)
qed

text \<open>
  C4. A request that is not a POST gets 405. A POST gets 400, and nothing is sent to any
  dependency, when \<^verbatim>\<open>Decode\<close> rejects its body (the read fails; the body does not start
  with a JSON value; the value is neither null nor an object; a member whose name is
  \<^verbatim>\<open>text\<close> up to the case of its letters is neither a string nor null) or when the
  decoded text is empty, which is the case when no member's name is \<^verbatim>\<open>text\<close> up to
  case. The bytes after the first value are not read. The claim as stated, 400 for every
  malformed body and every missing text, does not hold.
\<close>

theorem C4_rejected_before_any_call:
  "(Method r \<noteq> ''POST'' \<longrightarrow>
      StatusCode (fst (handleAnalyze w r)) = 405 \<and> snd (handleAnalyze w r) = [])
   \<and> (Method r = ''POST'' \<and> isl (Decode_AnalyseRequest (Body r)) \<longrightarrow>
      StatusCode (fst (handleAnalyze w r)) = 400 \<and> snd (handleAnalyze w r) = [])
   \<and> (Method r = ''POST'' \<and> Decode_AnalyseRequest (Body r) = Inr req \<and> Text req = [] \<longrightarrow>
      StatusCode (fst (handleAnalyze w r)) = 400 \<and> snd (handleAnalyze w r) = [])
   \<and> (Body r = Unreadable \<or> Body r = Invalid \<longrightarrow> isl (Decode_AnalyseRequest (Body r)))
   \<and> ((Body r = Document j \<or> Body r = Trailing j rest) \<and> j \<noteq> JNull \<and> (\<forall>ms. j \<noteq> JObject ms) \<longrightarrow>
      isl (Decode_AnalyseRequest (Body r)))
   \<and> ((Body r = Document (JObject ms) \<or> Body r = Trailing (JObject ms) rest)
        \<and> (k, v) \<in> set ms \<and> foldName k = foldName ''text'' \<and> v \<noteq> JNull \<and> (\<forall>x. v \<noteq> JString x) \<longrightarrow>
      isl (Decode_AnalyseRequest (Body r)))
   \<and> ((Body r = Document (JObject ms) \<or> Body r = Trailing (JObject ms) rest)
        \<and> (\<forall>m \<in> set ms. foldName (fst m) \<noteq> foldName ''text'') \<longrightarrow>
      Decode_AnalyseRequest (Body r) = Inr \<lparr>Text = []\<rparr>)"
proof -
  have "Decode_AnalyseRequest (Body r) = Inr \<lparr>Text = []\<rparr>"
    if "Body r = Document (JObject ms) \<or> Body r = Trailing (JObject ms) rest"
      "\<forall>m \<in> set ms. foldName (fst m) \<noteq> foldName ''text''"
    using that
    by (auto simp: Decode_AnalyseRequest_def unmarshal_AnalyseRequest_def object_AnalyseRequest_skip)
  moreover have "isl (Decode_AnalyseRequest (Body r))" if "Body r = Unreadable \<or> Body r = Invalid"
    using that by (auto simp: Decode_AnalyseRequest_def)
  moreover have "isl (Decode_AnalyseRequest (Body r))"
    if "Body r = Document j \<or> Body r = Trailing j rest" "j \<noteq> JNull" "\<forall>ms. j \<noteq> JObject ms"
    using that by (cases j) (auto simp: Decode_AnalyseRequest_def unmarshal_AnalyseRequest_def)
  moreover have "isl (Decode_AnalyseRequest (Body r))"
    if b: "Body r = Document (JObject ms) \<or> Body r = Trailing (JObject ms) rest"
      and m: "(k, v) \<in> set ms" "foldName k = foldName ''text''" "v \<noteq> JNull" "\<forall>x. v \<noteq> JString x"
  proof -
    have "snd (object_AnalyseRequest ms (\<lparr>Text = []\<rparr>, None)) \<noteq> None"
      using m by (rule object_AnalyseRequest_bad)
    then have "isl (unmarshal_AnalyseRequest (JObject ms))"
      by (cases "object_AnalyseRequest ms (\<lparr>Text = []\<rparr>, None)")
        (auto simp: unmarshal_AnalyseRequest_def)
    with b show ?thesis by (auto simp: Decode_AnalyseRequest_def)
  qed
  moreover have "StatusCode (fst (handleAnalyze w r)) = 405 \<and> snd (handleAnalyze w r) = []"
    if "Method r \<noteq> ''POST''"
    using that by (simp add: handleAnalyze_def http_Error_def)
  moreover have "StatusCode (fst (handleAnalyze w r)) = 400 \<and> snd (handleAnalyze w r) = []"
    if "Method r = ''POST''" "isl (Decode_AnalyseRequest (Body r))"
    using that by (cases "Decode_AnalyseRequest (Body r)") (simp_all add: handleAnalyze_def http_Error_def)
  moreover have "StatusCode (fst (handleAnalyze w r)) = 400 \<and> snd (handleAnalyze w r) = []"
    if "Method r = ''POST''" "Decode_AnalyseRequest (Body r) = Inr req" "Text req = []"
    using that by (simp add: handleAnalyze_def http_Error_def)
  ultimately show ?thesis by blast
qed

text \<open>
  The theorem at a GET, at a body that is not JSON, at a number for the text, at a
  missing and at an empty text.
\<close>

theorem C4_witness:
  "Method get_hi \<noteq> ''POST'' \<and> StatusCode (fst (handleAnalyze panama get_hi)) = 405
     \<and> snd (handleAnalyze panama get_hi) = []
   \<and> Method post_invalid = ''POST'' \<and> Body post_invalid = Invalid
     \<and> isl (Decode_AnalyseRequest (Body post_invalid))
     \<and> StatusCode (fst (handleAnalyze panama post_invalid)) = 400
     \<and> snd (handleAnalyze panama post_invalid) = []
   \<and> Method post_number = ''POST'' \<and> Body post_number = Document (JObject [(''text'', JNumber 5)])
     \<and> isl (Decode_AnalyseRequest (Body post_number))
     \<and> StatusCode (fst (handleAnalyze panama post_number)) = 400
     \<and> snd (handleAnalyze panama post_number) = []
   \<and> Method post_missing = ''POST''
     \<and> Decode_AnalyseRequest (Body post_missing) = Inr \<lparr>Text = []\<rparr>
     \<and> StatusCode (fst (handleAnalyze panama post_missing)) = 400
     \<and> snd (handleAnalyze panama post_missing) = []
   \<and> Method post_empty = ''POST''
     \<and> Decode_AnalyseRequest (Body post_empty) = Inr \<lparr>Text = []\<rparr>
     \<and> StatusCode (fst (handleAnalyze panama post_empty)) = 400
     \<and> snd (handleAnalyze panama post_empty) = []"
proof -
  have g: "Method get_hi \<noteq> ''POST''" by (simp add: get_hi_def)
  have i: "Method post_invalid = ''POST''" "Body post_invalid = Invalid"
    by (simp_all add: post_invalid_def)
  have n: "Method post_number = ''POST''" "Body post_number = Document (JObject [(''text'', JNumber 5)])"
    "(''text'', JNumber 5) \<in> set [(''text'', JNumber 5)]" "JNumber 5 \<noteq> JNull" "\<forall>x. JNumber 5 \<noteq> JString x"
    by (simp_all add: post_number_def)
  have m: "Method post_missing = ''POST''"
    "Body post_missing = Document (JObject [(''note'', JString ''hi'')])"
    "\<forall>m \<in> set [(''note'', JString ''hi'')]. foldName (fst m) \<noteq> foldName ''text''"
    by (simp_all add: post_missing_def upper_def)
  have e: "Method post_empty = ''POST''" "Decode_AnalyseRequest (Body post_empty) = Inr \<lparr>Text = []\<rparr>"
    "Text \<lparr>Text = []\<rparr> = []"
    by (simp_all add: post_empty_def Decode_AnalyseRequest_def unmarshal_AnalyseRequest_def upper_def)
  show ?thesis
    using C4_rejected_before_any_call [where r = get_hi and w = panama]
      C4_rejected_before_any_call [where r = post_invalid and w = panama]
      C4_rejected_before_any_call [where r = post_number and w = panama and ms = "[(''text'', JNumber 5)]"
        and k = "''text''" and v = "JNumber 5"]
      C4_rejected_before_any_call [where r = post_missing and w = panama and req = "\<lparr>Text = []\<rparr>"
        and ms = "[(''note'', JString ''hi'')]"]
      C4_rejected_before_any_call [where r = post_empty and w = panama and req = "\<lparr>Text = []\<rparr>"]
      g i n m e
    by simp
qed

text \<open>
  The claim as stated fails at a body that is an object followed by bytes that are not
  white space, which is not a JSON text, and at an object with a member \<^verbatim>\<open>TeXt\<close> and
  no member \<^verbatim>\<open>text\<close>: both get 200, and all eight dependencies are called.
\<close>

theorem C4_counterexample:
  "Method post_trailing = ''POST''
   \<and> Body post_trailing = Trailing (JObject [(''text'', JString ''hi'')]) '' trailing garbage''
   \<and> \<not> list_all isSpace '' trailing garbage''
   \<and> StatusCode (fst (handleAnalyze panama post_trailing)) = 200
   \<and> length (snd (handleAnalyze panama post_trailing)) = 8
   \<and> Method post_TeXt = ''POST''
   \<and> Body post_TeXt = Document (JObject [(''TeXt'', JString ''hi'')])
   \<and> index_map [(''TeXt'', JString ''hi'')] ''text'' = None
   \<and> StatusCode (fst (handleAnalyze panama post_TeXt)) = 200
   \<and> length (snd (handleAnalyze panama post_TeXt)) = 8"
proof -
  have t: "Method post_trailing = ''POST''"
    "Decode_AnalyseRequest (Body post_trailing) = Inr \<lparr>Text = ''hi''\<rparr>"
    by (simp_all add: post_trailing_def Decode_AnalyseRequest_def unmarshal_AnalyseRequest_def upper_def)
  have x: "Method post_TeXt = ''POST''"
    "Decode_AnalyseRequest (Body post_TeXt) = Inr \<lparr>Text = ''hi''\<rparr>"
    by (simp_all add: post_TeXt_def Decode_AnalyseRequest_def unmarshal_AnalyseRequest_def upper_def)
  have n: "Text \<lparr>Text = ''hi''\<rparr> \<noteq> []" by simp
  have l: "length (snd (aggregateAnalysis panama ''hi'')) = 8"
    by (simp add: aggregateAnalysis_def Let_def join_wire panama_def)
  show ?thesis
    using handler_valid [OF t n, of panama] handler_wire [OF t n, of panama]
      handler_valid [OF x n, of panama] handler_wire [OF x n, of panama] l
    by (simp add: post_trailing_def post_TeXt_def isSpace_def index_map_def)
qed

text \<open>
  C5. \<open>char_count\<close> is the number of bytes of the input text (a \<open>string\<close> is a list of
  bytes, as Go's is), whatever the dependencies answer and in whatever order; it is a
  member of the encoded response; and the six bytes of \<open>hello\<close>, the UTF-8 encoding of the
  five code points of h, e with acute, l, l, o, give 6.
\<close>

theorem C5_char_count_is_byte_length:
  "CharCount (fst (fst (aggregateAnalysis w text))) = int (length text)
   \<and> index_map (members (json_Marshal_AnalyseResponse (fst (fst (aggregateAnalysis w text)))))
       ''char_count'' = Some (JNumber (of_nat (length text)))
   \<and> CharCount (fst (fst (aggregateAnalysis w hello))) = 6"
proof -
  have c: "CharCount (fst (fst (aggregateAnalysis w t))) = int (length t)" for t
    by (simp add: aggregateAnalysis_def Let_def join_CharCount)
  have "index_map (members (json_Marshal_AnalyseResponse (fst (fst (aggregateAnalysis w text)))))
       ''char_count'' = Some (JNumber (of_nat (length text)))"
    using c [of "text"] by (simp add: json_Marshal_AnalyseResponse_def index_map_def)
  moreover have "CharCount (fst (fst (aggregateAnalysis w hello))) = 6"
    by (simp add: c hello_def)
  ultimately show ?thesis using c by blast
qed

text \<open>
  C6. A call sends one request: a POST to the base URL followed by \<^verbatim>\<open>/op\<close>, of content type
  JSON, its body the object with the single member \<^verbatim>\<open>text\<close>, through a client whose
  timeout is 10 seconds (in nanoseconds). It returns an error exactly when the POST fails,
  the status is not 200, the body cannot be read, or the body does not decode. In a run,
  the requests sent are eight, one by the goroutine of each dependency, to the URL that
  the dependency's own environment variable gives, or else to its own default, all with
  the text that \<open>aggregateAnalysis\<close> was given, which is the text of the inbound request.
\<close>

theorem C6_one_post_per_dependency:
  "(let env = (\<lambda>key dflt. if Getenv w key \<noteq> [] then Getenv w key else dflt);
        req = (\<lambda>base t0. \<lparr>URL = base @ ''/op'', ContentType = ''application/json'',
                 Payload = JObject [(''text'', JString t0)], Timeout = 10 * Second\<rparr>);
        reqs = (\<lambda>t0.
          [(Normalizer, req (env ''NORMALIZER_URL'' ''http://normalizer.disablers.svc.cluster.local:8080'') t0),
           (Transliterator, req (env ''TRANSLITERATOR_URL'' ''http://transliterator.disablers.svc.cluster.local:8082'') t0),
           (Slugger, req (env ''SLUGGER_URL'' ''http://slugger.disablers.svc.cluster.local:8083'') t0),
           (Tokenizer, req (env ''TOKENIZER_URL'' ''http://tokenizer.disablers.svc.cluster.local:8084'') t0),
           (Counter, req (env ''COUNTER_URL'' ''http://counter.disablers.svc.cluster.local:8085'') t0),
           (Hasher, req (env ''HASHER_URL'' ''http://hasher.disablers.svc.cluster.local:8086'') t0),
           (EntropyDep, req (env ''ENTROPY_URL'' ''http://entropy.disablers.svc.cluster.local:8087'') t0),
           (PalindromeDep, req (env ''PALINDROME_URL'' ''http://palindrome.disablers.svc.cluster.local:8088'') t0)])
    in snd (callMicroservice post url tx) = [req url tx]
     \<and> isl (fst (callMicroservice post url tx)) =
          (case post (req url tx) of
             PostFailed \<Rightarrow> True
           | Response c b \<Rightarrow> c \<noteq> 200 \<or> b = Unreadable \<or> isl (json_Unmarshal_OpResponse b))
     \<and> (run w \<longrightarrow> mset (snd (aggregateAnalysis w tx)) = mset (reqs tx))
     \<and> (run w \<and> Method r = ''POST'' \<and> Decode_AnalyseRequest (Body r) = Inr rq \<and> Text rq \<noteq> [] \<longrightarrow>
           mset (snd (handleAnalyze w r)) = mset (reqs (Text rq))))"
proof -
  have q: "\<lparr>URL = base @ ''/op'', ContentType = ''application/json'',
            Payload = JObject [(''text'', JString t0)], Timeout = 10 * Second\<rparr> = the_request base t0"
    for base t0
    by (simp add: the_request_def Second_def)
  have m: "mset (snd (aggregateAnalysis w t)) =
         mset (map (\<lambda>d. (d, the_request (baseURL w d) t)) all_deps)" if "run w" for t
  proof -
    have "mset (map (\<lambda>d. (d, the_request (baseURL w d) t)) (merge_order w)) =
          mset (map (\<lambda>d. (d, the_request (baseURL w d) t)) all_deps)"
      using that unfolding run_def by (metis mset_map)
    then show ?thesis by (simp add: aggregateAnalysis_def Let_def join_wire)
  qed
  have u: "map (\<lambda>d. (d, the_request (baseURL w d) t)) all_deps =
     [(Normalizer, the_request (if Getenv w ''NORMALIZER_URL'' \<noteq> [] then Getenv w ''NORMALIZER_URL''
         else ''http://normalizer.disablers.svc.cluster.local:8080'') t),
      (Transliterator, the_request (if Getenv w ''TRANSLITERATOR_URL'' \<noteq> [] then Getenv w ''TRANSLITERATOR_URL''
         else ''http://transliterator.disablers.svc.cluster.local:8082'') t),
      (Slugger, the_request (if Getenv w ''SLUGGER_URL'' \<noteq> [] then Getenv w ''SLUGGER_URL''
         else ''http://slugger.disablers.svc.cluster.local:8083'') t),
      (Tokenizer, the_request (if Getenv w ''TOKENIZER_URL'' \<noteq> [] then Getenv w ''TOKENIZER_URL''
         else ''http://tokenizer.disablers.svc.cluster.local:8084'') t),
      (Counter, the_request (if Getenv w ''COUNTER_URL'' \<noteq> [] then Getenv w ''COUNTER_URL''
         else ''http://counter.disablers.svc.cluster.local:8085'') t),
      (Hasher, the_request (if Getenv w ''HASHER_URL'' \<noteq> [] then Getenv w ''HASHER_URL''
         else ''http://hasher.disablers.svc.cluster.local:8086'') t),
      (EntropyDep, the_request (if Getenv w ''ENTROPY_URL'' \<noteq> [] then Getenv w ''ENTROPY_URL''
         else ''http://entropy.disablers.svc.cluster.local:8087'') t),
      (PalindromeDep, the_request (if Getenv w ''PALINDROME_URL'' \<noteq> [] then Getenv w ''PALINDROME_URL''
         else ''http://palindrome.disablers.svc.cluster.local:8088'') t)]" for t
    by (simp add: all_deps_def normalizerURL_def transliteratorURL_def sluggerURL_def
        tokenizerURL_def counterURL_def hasherURL_def entropyURL_def palindromeURL_def getEnv_def Let_def)
  have i: "isl (fst (callMicroservice post url tx)) =
      (case post (the_request url tx) of
         PostFailed \<Rightarrow> True
       | Response c b \<Rightarrow> c \<noteq> 200 \<or> b = Unreadable \<or> isl (json_Unmarshal_OpResponse b))"
    by (auto simp: callMicroservice_result json_Unmarshal_OpResponse_def split: http_result.splits)
  have h: "mset (snd (handleAnalyze w r)) =
         mset (map (\<lambda>d. (d, the_request (baseURL w d) (Text rq))) all_deps)"
    if "run w" "Method r = ''POST''" "Decode_AnalyseRequest (Body r) = Inr rq" "Text rq \<noteq> []"
    using that m [of "Text rq"] by (simp add: handler_wire)
  show ?thesis
    unfolding Let_def q
    using callMicroservice_sent [of post url tx] i m [of tx] h
    by (simp only: u) blast
qed

text \<open>
  The theorem at the slugger's call of the end-to-end scenario, at a status 503, at a
  body that is not JSON, at a body that cannot be read and at a failed POST; at the whole
  run, with the eight URLs, without and with a base URL set in the environment; and at a
  request.
\<close>

theorem C6_witness:
  "(let rq = (\<lambda>u. \<lparr>URL = u, ContentType = ''application/json'',
                 Payload = JObject [(''text'', JString ''hi'')], Timeout = 10000000000\<rparr>)
    in run panama
     \<and> snd (callMicroservice (Post panama Slugger) (sluggerURL panama) ''hi'') =
         [rq ''http://slugger.disablers.svc.cluster.local:8083/op'']
     \<and> \<not> isl (fst (callMicroservice (Post panama Slugger) (sluggerURL panama) ''hi''))
     \<and> isl (fst (callMicroservice (\<lambda>req. Response 503 (answer Slugger)) (sluggerURL panama) ''hi''))
     \<and> isl (fst (callMicroservice (\<lambda>req. Response 200 Invalid) (sluggerURL panama) ''hi''))
     \<and> isl (fst (callMicroservice (\<lambda>req. Response 200 Unreadable) (sluggerURL panama) ''hi''))
     \<and> isl (fst (callMicroservice (\<lambda>req. PostFailed) (sluggerURL panama) ''hi''))
     \<and> mset (snd (aggregateAnalysis panama ''hi'')) = mset
         [(Normalizer, rq ''http://normalizer.disablers.svc.cluster.local:8080/op''),
          (Transliterator, rq ''http://transliterator.disablers.svc.cluster.local:8082/op''),
          (Slugger, rq ''http://slugger.disablers.svc.cluster.local:8083/op''),
          (Tokenizer, rq ''http://tokenizer.disablers.svc.cluster.local:8084/op''),
          (Counter, rq ''http://counter.disablers.svc.cluster.local:8085/op''),
          (Hasher, rq ''http://hasher.disablers.svc.cluster.local:8086/op''),
          (EntropyDep, rq ''http://entropy.disablers.svc.cluster.local:8087/op''),
          (PalindromeDep, rq ''http://palindrome.disablers.svc.cluster.local:8088/op'')]
     \<and> run relocated
     \<and> mset (snd (aggregateAnalysis relocated ''hi'')) = mset
         [(Normalizer, rq ''http://normalizer.disablers.svc.cluster.local:8080/op''),
          (Transliterator, rq ''http://transliterator.disablers.svc.cluster.local:8082/op''),
          (Slugger, rq ''http://slugger.disablers.svc.cluster.local:8083/op''),
          (Tokenizer, rq ''http://tokenizer.disablers.svc.cluster.local:8084/op''),
          (Counter, rq ''http://counter.disablers.svc.cluster.local:8085/op''),
          (Hasher, rq ''http://localhost:9006/op''),
          (EntropyDep, rq ''http://entropy.disablers.svc.cluster.local:8087/op''),
          (PalindromeDep, rq ''http://palindrome.disablers.svc.cluster.local:8088/op'')]
     \<and> Method post_hi = ''POST'' \<and> Decode_AnalyseRequest (Body post_hi) = Inr \<lparr>Text = ''hi''\<rparr>
     \<and> mset (snd (handleAnalyze panama post_hi)) = mset
         [(Normalizer, rq ''http://normalizer.disablers.svc.cluster.local:8080/op''),
          (Transliterator, rq ''http://transliterator.disablers.svc.cluster.local:8082/op''),
          (Slugger, rq ''http://slugger.disablers.svc.cluster.local:8083/op''),
          (Tokenizer, rq ''http://tokenizer.disablers.svc.cluster.local:8084/op''),
          (Counter, rq ''http://counter.disablers.svc.cluster.local:8085/op''),
          (Hasher, rq ''http://hasher.disablers.svc.cluster.local:8086/op''),
          (EntropyDep, rq ''http://entropy.disablers.svc.cluster.local:8087/op''),
          (PalindromeDep, rq ''http://palindrome.disablers.svc.cluster.local:8088/op'')])"
proof -
  have h: "run panama" by (rule run_panama)
  have h': "run relocated" by (rule run_relocated)
  have u: "sluggerURL panama = ''http://slugger.disablers.svc.cluster.local:8083''"
    by (simp add: sluggerURL_def getEnv_def panama_def)
  have e: "Getenv panama = (\<lambda>k. [])"
    "Getenv relocated = (\<lambda>k. if k = ''HASHER_URL'' then ''http://localhost:9006'' else [])"
    by (simp_all add: panama_def relocated_def)
  have p: "Post panama Slugger = (\<lambda>req. Response 200 (answer Slugger))"
    by (simp add: panama_def)
  have a: "\<not> isl (json_Unmarshal_OpResponse (answer Slugger))" "answer Slugger \<noteq> Unreadable"
    by (simp_all add: unmarshal_envelope) (simp add: envelope_def)
  have i: "isl (json_Unmarshal_OpResponse Invalid)"
    by (simp add: json_Unmarshal_OpResponse_def)
  have h2: "Method post_hi = ''POST''" by (simp add: post_hi_def)
  have h3: "Decode_AnalyseRequest (Body post_hi) = Inr \<lparr>Text = ''hi''\<rparr>"
    by (simp add: post_hi_def Decode_AnalyseRequest_def unmarshal_AnalyseRequest_def upper_def)
  have s: "10 * Second = 10000000000" by (simp add: Second_def)
  show ?thesis
    using C6_one_post_per_dependency [where post = "Post panama Slugger" and url = "sluggerURL panama" and tx = "''hi''"
        and w = panama and r = post_hi and rq = "\<lparr>Text = ''hi''\<rparr>"]
      C6_one_post_per_dependency [where post = "\<lambda>req. Response 503 (answer Slugger)" and url = "sluggerURL panama"
        and tx = "''hi''" and w = relocated and r = post_hi and rq = "\<lparr>Text = ''hi''\<rparr>"]
      C6_one_post_per_dependency [where post = "\<lambda>req. Response 200 Invalid" and url = "sluggerURL panama"
        and tx = "''hi''" and w = panama and r = post_hi and rq = "\<lparr>Text = ''hi''\<rparr>"]
      C6_one_post_per_dependency [where post = "\<lambda>req. Response 200 Unreadable" and url = "sluggerURL panama"
        and tx = "''hi''" and w = panama and r = post_hi and rq = "\<lparr>Text = ''hi''\<rparr>"]
      C6_one_post_per_dependency [where post = "\<lambda>req. PostFailed" and url = "sluggerURL panama"
        and tx = "''hi''" and w = panama and r = post_hi and rq = "\<lparr>Text = ''hi''\<rparr>"]
      h h' a i h2 h3
    unfolding Let_def s
    by (simp add: u p e)
qed

text \<open>
  C7. With the outcome of every call fixed, the response (and the nil error) that
  \<open>aggregateAnalysis\<close> returns is the same for every order in which the eight goroutines
  merge their results: their writes go to different fields (\<open>assemble_commute\<close>).
\<close>

theorem C7_merge_order_irrelevant:
  assumes "run w" and "mset ord = mset all_deps"
  shows "fst (aggregateAnalysis (w\<lparr>merge_order := ord\<rparr>) text) = fst (aggregateAnalysis w text)"
proof -
  let ?w = "w\<lparr>merge_order := ord\<rparr>"
  have r: "run ?w" using assms(2) by simp
  have "response (join ?w text) = response (join w text)"
    by (simp add: join_response [OF r] join_response [OF assms(1)])
  moreover have "set (merge_order ?w) = set (merge_order w)"
    using run_set [OF r] run_set [OF assms(1)] by simp
  ultimately have "fst (fst (aggregateAnalysis ?w text)) = fst (fst (aggregateAnalysis w text))"
    by (simp add: aggregate_response)
  moreover have "snd (fst (aggregateAnalysis ?w text)) = snd (fst (aggregateAnalysis w text))"
    by (simp add: aggregateAnalysis_def Let_def)
  ultimately show ?thesis by (simp add: prod_eq_iff)
qed

text \<open>
  The theorem at the world of the end-to-end scenario, merged in the reverse order of the
  source, with the response it gives.
\<close>

theorem C7_witness:
  "run panama \<and> mset (rev all_deps) = mset all_deps
   \<and> fst (aggregateAnalysis (panama\<lparr>merge_order := rev all_deps\<rparr>) panama_text) =
       fst (aggregateAnalysis panama panama_text)
   \<and> fst (aggregateAnalysis panama panama_text) =
       (\<lparr>Normalized = ''a man a plan a canal panama'',
         Transliterated = ''a man a plan a canal panama'',
         Slug = ''a-man-a-plan-a-canal-panama'', Tokens = 7, UniqueWords = 6,
         BigramCount = 6, CharCount = 30, UniqueChars = 15, Hash64 = ''9ae16a3b2f90404f'',
         Entropy = 13 / 4, Palindrome = True, Degraded = False\<rparr>, None)"
proof -
  have h1: "run panama" by (rule run_panama)
  have h2: "mset (rev all_deps) = mset all_deps" by simp
  have t: "trunc 7 = 7" "trunc 6 = 6" "trunc 15 = 15" by (simp_all add: trunc_def)
  have v: "fst (aggregateAnalysis panama panama_text) =
       (\<lparr>Normalized = ''a man a plan a canal panama'',
         Transliterated = ''a man a plan a canal panama'',
         Slug = ''a-man-a-plan-a-canal-panama'', Tokens = 7, UniqueWords = 6,
         BigramCount = 6, CharCount = 30, UniqueChars = 15, Hash64 = ''9ae16a3b2f90404f'',
         Entropy = 13 / 4, Palindrome = True, Degraded = False\<rparr>, None)"
    apply (simp add: prod_eq_iff aggregate_response join_response [OF h1] panama_no_failure)
    apply (simp add: outcome_panama unmarshal_envelope)
    apply (simp add: keep_def as_string_def as_float64_def as_bool_def as_count_def index_map_def
        int_of_float64_def t panama_text_def aggregateAnalysis_def Let_def)
    done
  from C7_merge_order_irrelevant [OF h1 h2] h1 h2 v show ?thesis by simp
qed

text \<open>
  C8. Let \<open>v\<close> be the tokenizer's value as the call returns it: the \<^verbatim>\<open>float64\<close> that
  \<^verbatim>\<open>json.Unmarshal\<close> yields for the number in the body, not the literal (for the
  literal 9223372036854775807 it is \<open>2 ^ 63\<close>, for 9007199254740993 it is \<open>2 ^ 53\<close>).
  When the integer part of \<open>v\<close> fits Go's 64-bit \<^verbatim>\<open>int\<close>, \<open>tokens\<close> is \<open>v\<close> truncated
  towards zero (\<open>trunc v\<close>: no larger than \<open>v\<close> in magnitude, and less than 1 away from
  it); a value that is not a number leaves \<open>tokens\<close> at 0. For a \<open>v\<close> outside that range
  the claim as stated does not hold: \<open>tokens\<close> is a 64-bit value that the platform chooses
  (\<open>tokens_never_2_63\<close>: never the truncation).
\<close>

theorem C8_tokens_truncated_when_representable:
  assumes "run w" and "outcome w text Tokenizer = Inr resp"
  shows "(Value resp = JNumber v \<and> - (2 ^ 63) \<le> trunc v \<and> trunc v < 2 ^ 63 \<longrightarrow>
            Tokens (fst (fst (aggregateAnalysis w text))) = trunc v)
       \<and> \<bar>of_int (trunc v)\<bar> \<le> \<bar>v\<bar> \<and> \<bar>v - of_int (trunc v)\<bar> < 1
       \<and> ((\<forall>x. Value resp \<noteq> JNumber x) \<longrightarrow> Tokens (fst (fst (aggregateAnalysis w text))) = 0)"
proof -
  have t: "Tokens (fst (fst (aggregateAnalysis w text))) =
        keep (outcome w text Tokenizer) (map_option (int_of_float64 (out_of_range w)) \<circ> as_float64) 0"
    by (simp add: aggregate_response join_response [OF assms(1)])
  have "Tokens (fst (fst (aggregateAnalysis w text))) = trunc v"
    if "Value resp = JNumber v" "- (2 ^ 63) \<le> trunc v \<and> trunc v < 2 ^ 63"
    using that by (simp add: t assms(2) keep_def as_float64_def int_of_float64_def)
  moreover have "Tokens (fst (fst (aggregateAnalysis w text))) = 0"
    if "\<forall>x. Value resp \<noteq> JNumber x"
    using that by (cases "Value resp") (simp_all add: t assms(2) keep_def as_float64_def)
  ultimately show ?thesis
    using trunc_towards_zero [of v] by blast
qed

text \<open>
  The theorem at a tokenizer that answers -7.5 (truncated to -7, not rounded down to -8),
  at one that answers 7, and at one that answers the string "7".
\<close>

theorem C8_witness:
  "run negative_tokens
   \<and> outcome negative_tokens panama_text Tokenizer =
       Inr \<lparr>Key = ''tokens'', Value = JNumber (- 15 / 2), CacheHit = False\<rparr>
   \<and> trunc (- 15 / 2) = - 7
   \<and> Tokens (fst (fst (aggregateAnalysis negative_tokens panama_text))) = - 7
   \<and> run mismatch
   \<and> outcome mismatch panama_text Tokenizer = Inr \<lparr>Key = ''tokens'', Value = JNumber 7, CacheHit = False\<rparr>
   \<and> Tokens (fst (fst (aggregateAnalysis mismatch panama_text))) = 7
   \<and> run (with_answer panama Tokenizer (envelope ''tokens'' (JString ''7'')))
   \<and> outcome (with_answer panama Tokenizer (envelope ''tokens'' (JString ''7''))) panama_text Tokenizer =
        Inr \<lparr>Key = ''tokens'', Value = JString ''7'', CacheHit = False\<rparr>
   \<and> Tokens (fst (fst (aggregateAnalysis (with_answer panama Tokenizer (envelope ''tokens'' (JString ''7''))) panama_text))) = 0"
proof -
  have h1: "run negative_tokens" by (simp add: negative_tokens_def run_panama)
  have h2: "outcome negative_tokens panama_text Tokenizer =
       Inr \<lparr>Key = ''tokens'', Value = JNumber (- 15 / 2), CacheHit = False\<rparr>"
    by (simp add: negative_tokens_def outcome_with_answer unmarshal_envelope)
  have t: "trunc (- (15 / 2)) = - 7" by code_simp
  have g1: "run mismatch" by (simp add: mismatch_def run_panama)
  have g2: "outcome mismatch panama_text Tokenizer = Inr \<lparr>Key = ''tokens'', Value = JNumber 7, CacheHit = False\<rparr>"
    by (simp add: mismatch_def outcome_with_answer outcome_panama unmarshal_envelope)
  have t7: "trunc 7 = 7" by (simp add: trunc_def)
  have k1: "run (with_answer panama Tokenizer (envelope ''tokens'' (JString ''7'')))"
    by (simp add: run_panama)
  have k2: "outcome (with_answer panama Tokenizer (envelope ''tokens'' (JString ''7''))) panama_text Tokenizer =
        Inr \<lparr>Key = ''tokens'', Value = JString ''7'', CacheHit = False\<rparr>"
    by (simp add: outcome_with_answer unmarshal_envelope)
  show ?thesis
    using C8_tokens_truncated_when_representable [OF h1 h2, of "- 15 / 2"]
      C8_tokens_truncated_when_representable [OF g1 g2, of 7]
      C8_tokens_truncated_when_representable [OF k1 k2, of 0]
      h1 h2 g1 g2 k1 k2
    by (simp add: t t7)
qed

text \<open>
  The claim as stated fails where the tokenizer's value is the \<^verbatim>\<open>float64\<close> \<open>2 ^ 63\<close>: its
  truncation is \<open>2 ^ 63\<close>, and \<open>tokens\<close> is the smallest 64-bit integer on amd64.
\<close>

theorem C8_counterexample:
  "outcome huge_tokens panama_text Tokenizer =
       Inr \<lparr>Key = ''tokens'', Value = JNumber 9223372036854775808, CacheHit = False\<rparr>
   \<and> trunc 9223372036854775808 = 9223372036854775808
   \<and> Tokens (fst (fst (aggregateAnalysis huge_tokens panama_text))) = - 9223372036854775808"
proof -
  have h1: "run huge_tokens" by (simp add: huge_tokens_def run_panama)
  have h2: "outcome huge_tokens panama_text Tokenizer =
       Inr \<lparr>Key = ''tokens'', Value = JNumber 9223372036854775808, CacheHit = False\<rparr>"
    by (simp add: huge_tokens_def outcome_with_answer unmarshal_envelope)
  have t: "trunc 9223372036854775808 = 9223372036854775808" by (simp add: trunc_def)
  have o: "out_of_range huge_tokens = amd64_oor"
    by (simp add: huge_tokens_def panama_def)
  have "int_of_float64 amd64_oor 9223372036854775808 = - 9223372036854775808"
    by (simp add: int_of_float64_def t amd64_oor_def)
  then have "Tokens (fst (fst (aggregateAnalysis huge_tokens panama_text))) = - 9223372036854775808"
    by (simp add: aggregate_response join_response [OF h1] h2 o keep_def as_float64_def)
  with h2 t show ?thesis by simp
qed

text \<open>
  C9. A dependency answers status 200 with an object that has an \<^verbatim>\<open>error\<close> member, and
  whose other members decode to a response whose value is null or of another shape than
  the goroutine asserts. \<open>OpResponse\<close> has no field for \<^verbatim>\<open>error\<close>, so the member is
  skipped: the call returns that response and no error, the goroutine changes nothing,
  its fields stay zero, nothing is recorded under its name, and \<open>degraded\<close> is decided
  by the other dependencies.
\<close>

theorem C9_error_member_not_decoded:
  assumes "run w"
    and "Post w d (the_request (baseURL w d) text) = Response 200 (Document (JObject ms))"
    and "(''error'', e) \<in> set ms"
    and "json_Unmarshal_OpResponse (Document (JObject [m \<leftarrow> ms. fst m \<noteq> ''error''])) = Inr resp"
    and "\<not> expected_shape d (Value resp)"
  shows "outcome w text d = Inr resp
    \<and> merge w d (outcome w text d) s = s
    \<and> zero_fields d (fst (fst (aggregateAnalysis w text)))
    \<and> errname d \<notin> fst ` set (errors (join w text))
    \<and> Degraded (fst (fst (aggregateAnalysis w text))) = (\<exists>d'. d' \<noteq> d \<and> isl (outcome w text d'))"
proof -
  have o: "outcome w text d = Inr resp"
    using assms(4) by (simp add: outcome_def callMicroservice_result assms(2) unmarshal_skips_error)
  have "merge w d (outcome w text d) s = s"
    using assms(5) by (simp add: o merge_mismatch)
  moreover have "zero_fields d (fst (fst (aggregateAnalysis w text)))"
    using keep_mismatch [OF assms(1) o assms(5)] by (simp add: aggregate_response)
  moreover have "errname d \<notin> fst ` set (errors (join w text))"
    using o by (rule not_recorded)
  moreover have "Degraded (fst (fst (aggregateAnalysis w text))) = (\<exists>d'. d' \<noteq> d \<and> isl (outcome w text d'))"
    using assms(1) o by (rule degraded_others)
  ultimately show ?thesis using o by blast
qed

text \<open>
  The theorem at the body the transliterator writes for a text that is too long, the
  other seven dependencies answering as in the end-to-end scenario.
\<close>

theorem C9_witness:
  "run refused
   \<and> Post refused Transliterator (the_request (baseURL refused Transliterator) panama_text) =
       Response 200 (Document (JObject [(''key'', JString ''transliterated''), (''value'', JNull),
         (''cache_hit'', JBool False), (''error'', JString ''Input text too long (max 10000 characters)'')]))
   \<and> outcome refused panama_text Transliterator = Inr \<lparr>Key = ''transliterated'', Value = JNull, CacheHit = False\<rparr>
   \<and> \<not> expected_shape Transliterator JNull
   \<and> Transliterated (fst (fst (aggregateAnalysis refused panama_text))) = []
   \<and> ''transliterator'' \<notin> fst ` set (errors (join refused panama_text))
   \<and> \<not> Degraded (fst (fst (aggregateAnalysis refused panama_text)))"
proof -
  let ?ms = "[(''key'', JString ''transliterated''), (''value'', JNull),
         (''cache_hit'', JBool False), (''error'', JString ''Input text too long (max 10000 characters)'')]"
  have h1: "run refused" by (simp add: refused_def run_panama)
  have h2: "Post refused Transliterator (the_request (baseURL refused Transliterator) panama_text) =
       Response 200 (Document (JObject ?ms))"
    by (simp add: refused_def with_answer_def refusal_def)
  have h3: "(''error'', JString ''Input text too long (max 10000 characters)'') \<in> set ?ms"
    by simp
  have h4: "json_Unmarshal_OpResponse (Document (JObject [m \<leftarrow> ?ms. fst m \<noteq> ''error''])) =
       Inr \<lparr>Key = ''transliterated'', Value = JNull, CacheHit = False\<rparr>"
    by (simp add: json_Unmarshal_OpResponse_def unmarshal_OpResponse_def foldName_consts)
  have h5: "\<not> expected_shape Transliterator (Value \<lparr>Key = ''transliterated'', Value = JNull, CacheHit = False\<rparr>)"
    by simp
  have o: "\<not> isl (outcome refused panama_text d)" for d
    by (simp add: refused_def outcome_with_answer refusal_def json_Unmarshal_OpResponse_def unmarshal_OpResponse_def
        foldName_consts panama_no_failure)
  from C9_error_member_not_decoded [OF h1 h2 h3 h4 h5] h1 h2 show ?thesis
    by (simp add: o)
qed

text \<open>
  C10. When the counter's value is an object, each of \<open>unique_words\<close>, \<open>bigram_count\<close> and
  \<open>unique_chars\<close> is the converted member of that name when the object has it as a
  number, and zero otherwise, each on its own; no error is recorded for the counter.
\<close>

theorem C10_counter_fields_independent:
  assumes "run w" and "outcome w text Counter = Inr resp" and "Value resp = JObject data"
  shows "UniqueWords (fst (fst (aggregateAnalysis w text))) =
           (case index_map data ''unique_words'' of
              Some (JNumber x) \<Rightarrow> int_of_float64 (out_of_range w) x | _ \<Rightarrow> 0)
       \<and> BigramCount (fst (fst (aggregateAnalysis w text))) =
           (case index_map data ''bigram_count'' of
              Some (JNumber x) \<Rightarrow> int_of_float64 (out_of_range w) x | _ \<Rightarrow> 0)
       \<and> UniqueChars (fst (fst (aggregateAnalysis w text))) =
           (case index_map data ''unique_chars'' of
              Some (JNumber x) \<Rightarrow> int_of_float64 (out_of_range w) x | _ \<Rightarrow> 0)
       \<and> ''counter'' \<notin> fst ` set (errors (join w text))"
proof -
  have k: "keep (outcome w text Counter) (as_count w k) 0 =
           (case index_map data k of Some (JNumber x) \<Rightarrow> int_of_float64 (out_of_range w) x | _ \<Rightarrow> 0)" for k
    by (simp add: assms(2,3) keep_def as_count_def split: option.splits json.splits)
  have "errname Counter \<notin> fst ` set (errors (join w text))"
    using assms(2) by (rule not_recorded)
  then show ?thesis
    by (simp add: aggregate_response join_response [OF assms(1)] k)
qed

text \<open>
  The theorem at a counter that answers a string for \<open>unique_words\<close>, 6.5 for
  \<open>bigram_count\<close> and nothing for \<open>unique_chars\<close>.
\<close>

theorem C10_witness:
  "run partial_counts
   \<and> outcome partial_counts panama_text Counter =
       Inr \<lparr>Key = ''counts'', Value = JObject [(''unique_words'', JString ''six''), (''bigram_count'', JNumber (13 / 2))], CacheHit = False\<rparr>
   \<and> UniqueWords (fst (fst (aggregateAnalysis partial_counts panama_text))) = 0
   \<and> BigramCount (fst (fst (aggregateAnalysis partial_counts panama_text))) = 6
   \<and> UniqueChars (fst (fst (aggregateAnalysis partial_counts panama_text))) = 0
   \<and> ''counter'' \<notin> fst ` set (errors (join partial_counts panama_text))"
proof -
  have h1: "run partial_counts" by (simp add: partial_counts_def run_panama)
  have h2: "outcome partial_counts panama_text Counter =
       Inr \<lparr>Key = ''counts'', Value = JObject [(''unique_words'', JString ''six''), (''bigram_count'', JNumber (13 / 2))], CacheHit = False\<rparr>"
    by (simp add: partial_counts_def outcome_with_answer unmarshal_envelope)
  have h3: "Value \<lparr>Key = ''counts'', Value = JObject [(''unique_words'', JString ''six''), (''bigram_count'', JNumber (13 / 2))], CacheHit = False\<rparr>
       = JObject [(''unique_words'', JString ''six''), (''bigram_count'', JNumber (13 / 2))]"
    by simp
  have t: "trunc (13 / 2) = 6" by code_simp
  have i: "int_of_float64 (out_of_range partial_counts) (13 / 2) = 6"
    by (simp add: int_of_float64_def t)
  from C10_counter_fields_independent [OF h1 h2 h3] h1 h2 show ?thesis
    by (simp add: index_map_def i)
qed

end
